theory Spec2Isabelle
  imports Complex_Main "HOL-Library.List_Lexorder" "HOL-Library.Char_ord"
begin

text \<open>
  The swap server of the Invariant trader for Eclipse (token registry, pool discovery,
  \<open>performTokenSwap\<close> and the routes \<open>POST /api/swap\<close> and \<open>POST /api/quote\<close>) and the
  fixed-pair swap functions of \<open>swap.ts\<close> and \<open>app.ts\<close>, as functions on an explicit world:
  the sequence of calls that have reached the network and the lines written to the console.
  The SDK, the key handling and the ledger are parameters.
\<close>

section \<open>Data model\<close>

text \<open>
  A \<open>PublicKey\<close> is represented by its base58 text, the form in which the sources write
  every mint and program id. Amounts held in \<open>BN\<close> objects are unbounded integers.
\<close>

type_synonym PublicKey = string

datatype TokenProgram = TOKEN_PROGRAM_ID | TOKEN_2022_PROGRAM_ID

record TokenInfo =
  mint :: PublicKey
  decimals :: nat
  tokenProgram :: TokenProgram

text \<open>
  Pool records returned by \<open>market.getAllPools()\<close> and \<open>Pair\<close> objects of the SDK both
  carry \<open>tokenX\<close> and \<open>tokenY\<close>; the two records extend a common one so that the field
  names of the source can be used for both. \<open>tickSpacing\<close> of a pool may be absent.
\<close>

record TokenPair =
  tokenX :: PublicKey
  tokenY :: PublicKey

record PoolStructure = TokenPair +
  fee :: int
  tickSpacing :: "nat option"

text \<open>A fee tier \<open>{fee, tickSpacing}\<close> is the pair of its two components.\<close>

type_synonym FeeTier = "int \<times> nat"

record SdkPair = TokenPair +
  feeTier :: FeeTier

datatype Error = Error string

datatype SimulationStatus = Ok | NotOk string

record Simulation =
  status :: SimulationStatus
  priceAfterSwap :: int
  accumulatedAmountOut :: "int option"
  priceImpact :: "int option"

text \<open>
  Arguments of \<open>swapSimulation\<close> and of \<open>market.swap\<close>. The fields both calls take
  (\<open>xToY\<close>, \<open>byAmountIn\<close>, \<open>amount\<close>, \<open>slippage\<close>) are in the common record.
\<close>

record TradeParams =
  xToY :: bool
  byAmountIn :: bool
  amount :: int
  slippage :: int

record SimArgs = TradeParams +
  poolAddress :: PublicKey
  maxCrosses :: nat

record SwapArgs = TradeParams +
  estimatedPriceAfterSwap :: int
  pair :: SdkPair
  accountX :: PublicKey
  accountY :: PublicKey
  owner :: PublicKey

text \<open>Every interaction with the network, in the order in which it is issued.\<close>

datatype Event =
    MarketBuild
  | GetAllPools
  | GetAccount PublicKey
  | SendTransaction "PublicKey list"
  | SwapSimulation SimArgs
  | MarketSwap SwapArgs

text \<open>Lines written to the console by the swap paths.\<close>

datatype Console =
    FailedToInitializeMarket
  | PoolSimulationFailed nat SimulationStatus
  | PoolFailed nat string
  | SwapError string

record World =
  trace :: "Event list"
  console :: "Console list"

text \<open>
  The external collaborators: the SDK's \<open>Pair\<close> ordering, key decoding, address
  derivation, \<open>toDecimal\<close>, and the calls that reach the network. A network call may answer
  differently each time, so its answer depends on the events issued before it. \<open>Inl\<close> is a
  thrown error with its message; \<open>marketBuild\<close> and \<open>sendAndConfirmTransaction\<close> yield
  the message when they throw; \<open>getAccount\<close> yields the token amount of an account that
  exists and throws otherwise. The SDK's \<open>toDecimal(x, decimals)\<close> multiplies with
  \<open>muln(x)\<close> of bn.js, which asserts that \<open>x\<close> is a number below \<open>2^26\<close>: it throws
  for some arguments.
\<close>

record Ledger =
  keyLess :: "PublicKey \<Rightarrow> PublicKey \<Rightarrow> bool"
  fromSecretKey :: "string \<Rightarrow> PublicKey option"
  getAssociatedTokenAddressSync :: "PublicKey \<Rightarrow> PublicKey \<Rightarrow> TokenProgram \<Rightarrow> PublicKey"
  getAddress :: "SdkPair \<Rightarrow> PublicKey"
  toDecimal :: "rat \<Rightarrow> nat \<Rightarrow> string + int"
  marketBuild :: "Event list \<Rightarrow> string option"
  getAllPools :: "Event list \<Rightarrow> string + PoolStructure list"
  getAccount :: "Event list \<Rightarrow> PublicKey \<Rightarrow> int option"
  sendAndConfirmTransaction :: "Event list \<Rightarrow> PublicKey list \<Rightarrow> string option"
  swapSimulation :: "Event list \<Rightarrow> SimArgs \<Rightarrow> string + Simulation"
  swap :: "Event list \<Rightarrow> SwapArgs \<Rightarrow> string + string"

definition emit :: "Event \<Rightarrow> World \<Rightarrow> World" where
  "emit e w = w\<lparr>trace := trace w @ [e]\<rparr>"

definition say :: "Console \<Rightarrow> World \<Rightarrow> World" where
  "say l w = w\<lparr>console := console w @ [l]\<rparr>"

section \<open>Pool discovery (server: \<open>findBestPoolForPair\<close>)\<close>

definition relevant :: "PublicKey \<Rightarrow> PublicKey \<Rightarrow> PoolStructure \<Rightarrow> bool" where
  "relevant tokenA tokenB pool \<longleftrightarrow>
     (tokenX pool = tokenA \<and> tokenY pool = tokenB) \<or>
     (tokenX pool = tokenB \<and> tokenY pool = tokenA)"

text \<open>
  \<open>relevantPools.sort((a, b) => a.fee.cmp(b.fee))\<close>: \<open>Array.prototype.sort\<close> is a stable
  sort by the comparator; \<open>sort_key\<close> is the stable insertion sort by key.
\<close>

definition findBestPoolForPair ::
  "Ledger \<Rightarrow> PublicKey \<Rightarrow> PublicKey \<Rightarrow> World \<Rightarrow> (Error + PoolStructure list) \<times> World" where
  "findBestPoolForPair env tokenA tokenB w =
     (case getAllPools env (trace w) of
        Inl msg \<Rightarrow> (Inl (Error msg), emit GetAllPools w)
      | Inr allPools \<Rightarrow>
          (Inr (sort_key fee (filter (relevant tokenA tokenB) allPools)), emit GetAllPools w))"

section \<open>SDK helpers\<close>

text \<open>
  \<open>new Pair(first, second, feeTier)\<close>: throws on equal keys and otherwise puts the key
  that is smaller in the SDK's ordering first. The ordering is a parameter.
\<close>

definition newPair ::
  "(PublicKey \<Rightarrow> PublicKey \<Rightarrow> bool) \<Rightarrow> PublicKey \<Rightarrow> PublicKey \<Rightarrow> FeeTier \<Rightarrow> Error + SdkPair" where
  "newPair precedes first second ft =
     (if first = second then Inl (Error ''Pair must contain two unique public keys'')
      else if precedes first second then Inr \<lparr>tokenX = first, tokenY = second, feeTier = ft\<rparr>
      else Inr \<lparr>tokenX = second, tokenY = first, feeTier = ft\<rparr>)"

text \<open>
  The pair that the server builds from a pool record:
  \<open>new Pair(pool.tokenX, pool.tokenY, {fee: pool.fee, tickSpacing: pool.tickSpacing || 1})\<close>.
\<close>

definition pairOfPool :: "Ledger \<Rightarrow> PoolStructure \<Rightarrow> Error + SdkPair" where
  "pairOfPool env pool =
     newPair (keyLess env) (tokenX pool) (tokenY pool)
       (fee pool, (case tickSpacing pool of None \<Rightarrow> 1 | Some n \<Rightarrow> if n = 0 then 1 else n))"

text \<open>
  \<open>new BN(number)\<close> of bn.js keeps the integer part of a number below \<open>2^53\<close> in
  magnitude and asserts otherwise; \<open>toNumber()\<close> asserts that the value fits 53 bits.
\<close>

definition BN_ofNumber :: "rat \<Rightarrow> Error + int" where
  "BN_ofNumber x =
     (if \<bar>x\<bar> < 2 ^ 53 then Inr (if 0 \<le> x then \<lfloor>x\<rfloor> else - \<lfloor>- x\<rfloor>)
      else Inl (Error ''Assertion failed''))"

definition BN_toNumber :: "int \<Rightarrow> Error + int" where
  "BN_toNumber n =
     (if \<bar>n\<bar> < 2 ^ 53 then Inr n
      else Inl (Error ''Number can only safely store up to 53 bits''))"

text \<open>\<open>a.div(b)\<close> of bn.js rounds towards zero.\<close>

definition BN_div :: "int \<Rightarrow> int \<Rightarrow> int" where
  "BN_div a b = sgn a * sgn b * (\<bar>a\<bar> div \<bar>b\<bar>)"

section \<open>Server: token registry and utilities\<close>

definition NATIVE_MINT :: PublicKey where
  "NATIVE_MINT = ''So11111111111111111111111111111111111111112''"

definition TOKEN_REGISTRY :: "(string \<times> TokenInfo) list" where
  "TOKEN_REGISTRY =
     [(''ETH'', \<lparr>mint = NATIVE_MINT, decimals = 9, tokenProgram = TOKEN_PROGRAM_ID\<rparr>),
      (''SOL'', \<lparr>mint = NATIVE_MINT, decimals = 9, tokenProgram = TOKEN_PROGRAM_ID\<rparr>),
      (''USDT'', \<lparr>mint = ''CEBP3CqAbW4zdZA57H2wfaSG1QNdzQ72GiQEbQXyW9Tm'', decimals = 6,
                 tokenProgram = TOKEN_2022_PROGRAM_ID\<rparr>),
      (''USDC'', \<lparr>mint = ''AKEWE7Bgh87GPp171b4cJPSSZfmZwQ3KaqYqXoKLNAEE'', decimals = 6,
                 tokenProgram = TOKEN_2022_PROGRAM_ID\<rparr>),
      (''WBTC'', \<lparr>mint = ''9n4nbM75f5Ui33ZbPYXn59EwSgE8CGsHtAeTH5YFeJ9E'', decimals = 8,
                 tokenProgram = TOKEN_2022_PROGRAM_ID\<rparr>),
      (''WETH'', \<lparr>mint = ''So11111111111111111111111111111111111111112'', decimals = 9,
                 tokenProgram = TOKEN_PROGRAM_ID\<rparr>),
      (''AVAX'', \<lparr>mint = ''KMNo3nJsBXfcpJTVhZcXLW7RmTwTt4GVFE7suUBo9sS'', decimals = 9,
                 tokenProgram = TOKEN_2022_PROGRAM_ID\<rparr>),
      (''MATIC'', \<lparr>mint = ''Ga2AXHpfAF6mv2ekZwcsJFqu7wB4NV331qNH7fW9Nst8'', decimals = 9,
                  tokenProgram = TOKEN_2022_PROGRAM_ID\<rparr>)]"

text \<open>\<open>toUpperCase\<close> on ASCII text: the letters a to z move to A to Z.\<close>

definition toUpperCaseChar :: "char \<Rightarrow> char" where
  "toUpperCaseChar c =
     (case map_of (zip ''abcdefghijklmnopqrstuvwxyz'' ''ABCDEFGHIJKLMNOPQRSTUVWXYZ'') c of
        None \<Rightarrow> c
      | Some u \<Rightarrow> u)"

definition toUpperCase :: "string \<Rightarrow> string" where
  "toUpperCase s = map toUpperCaseChar s"

definition getTokenInfo :: "string \<Rightarrow> Error + TokenInfo" where
  "getTokenInfo symb =
     (case map_of TOKEN_REGISTRY (toUpperCase symb) of
        None \<Rightarrow> Inl (Error (''Token '' @ symb @ '' not supported''))
      | Some token \<Rightarrow> Inr token)"

definition createKeypairFromPrivateKey :: "Ledger \<Rightarrow> string \<Rightarrow> Error + PublicKey" where
  "createKeypairFromPrivateKey env privateKey =
     (case fromSecretKey env privateKey of
        None \<Rightarrow> Inl (Error ''Invalid private key format'')
      | Some publicKey \<Rightarrow> Inr publicKey)"

definition initializeMarket :: "Ledger \<Rightarrow> World \<Rightarrow> (Error + unit) \<times> World" where
  "initializeMarket env w =
     (case marketBuild env (trace w) of
        None \<Rightarrow> (Inr (), emit MarketBuild w)
      | Some _ \<Rightarrow> (Inl (Error ''Market initialization failed''),
                  say FailedToInitializeMarket (emit MarketBuild w)))"

definition createTokenAccountIfNeeded ::
  "Ledger \<Rightarrow> PublicKey \<Rightarrow> PublicKey \<Rightarrow> TokenProgram \<Rightarrow> World \<Rightarrow> (Error + PublicKey) \<times> World" where
  "createTokenAccountIfNeeded env mnt ownr prog w =
     (let associatedTokenAddress = getAssociatedTokenAddressSync env mnt ownr prog;
          w1 = emit (GetAccount associatedTokenAddress) w
      in if getAccount env (trace w) associatedTokenAddress \<noteq> None
         then (Inr associatedTokenAddress, w1)
         else (case sendAndConfirmTransaction env (trace w1) [associatedTokenAddress] of
                 Some msg \<Rightarrow> (Inl (Error msg), emit (SendTransaction [associatedTokenAddress]) w1)
               | None \<Rightarrow>
                   (Inr associatedTokenAddress, emit (SendTransaction [associatedTokenAddress]) w1)))"

section \<open>Server: \<open>performTokenSwap\<close>\<close>

definition TICK_CROSSES_PER_IX_NATIVE_TOKEN :: nat where
  "TICK_CROSSES_PER_IX_NATIVE_TOKEN = 40"

record SwapRequest =
  fromToken :: string
  toToken :: string
  fromAmount :: rat

text \<open>
  The success object. \<open>estimatedToAmount\<close> is \<open>None\<close> for the text \<open>Unknown\<close>;
  \<open>poolUsed\<close> is the pair of \<open>address\<close> and \<open>fee\<close>. The field \<open>feePercent\<close> is a
  formatted floating-point number; only the \<open>toNumber()\<close> it evaluates is modelled.
\<close>

record SwapResult = SwapRequest +
  transactionHash :: string
  estimatedToAmount :: "int option"
  poolUsed :: "PublicKey \<times> int"

text \<open>The local variables of \<open>performTokenSwap\<close> that the loop over the pools reads.\<close>

record Locals = SwapRequest +
  fromTokenInfo :: TokenInfo
  toTokenInfo :: TokenInfo
  swapAmount :: int
  slippagePercent :: rat
  keypair :: PublicKey

datatype 'a Step = Return 'a | Continue

text \<open>
  The arguments of \<open>swapSimulation\<close> (also those of the quote route) and of
  \<open>market.swap\<close> for a pair, as the loop body builds them; \<open>slippageDecimal\<close> is the
  value that \<open>toDecimal(slippagePercent, 2)\<close> has returned.
\<close>

definition simulationArgs :: "Ledger \<Rightarrow> PublicKey \<Rightarrow> int \<Rightarrow> int \<Rightarrow> SdkPair \<Rightarrow> SimArgs" where
  "simulationArgs env fromMint amt slippageDecimal pr =
     \<lparr>xToY = (tokenX pr = fromMint), byAmountIn = True, amount = amt,
      slippage = slippageDecimal,
      poolAddress = getAddress env pr, maxCrosses = TICK_CROSSES_PER_IX_NATIVE_TOKEN\<rparr>"

definition executionArgs :: "Ledger \<Rightarrow> Locals \<Rightarrow> int \<Rightarrow> SdkPair \<Rightarrow> int \<Rightarrow> SwapArgs" where
  "executionArgs env c slippageDecimal pr price =
     \<lparr>xToY = (tokenX pr = mint (fromTokenInfo c)), byAmountIn = True, amount = swapAmount c,
      slippage = slippageDecimal,
      estimatedPriceAfterSwap = price,
      pair = pr,
      accountX = getAssociatedTokenAddressSync env (tokenX pr) (keypair c)
        (if tokenX pr = mint (fromTokenInfo c) then tokenProgram (fromTokenInfo c)
         else tokenProgram (toTokenInfo c)),
      accountY = getAssociatedTokenAddressSync env (tokenY pr) (keypair c)
        (if tokenY pr = mint (fromTokenInfo c) then tokenProgram (fromTokenInfo c)
         else tokenProgram (toTokenInfo c)),
      owner = keypair c\<rparr>"

definition successResult ::
  "Ledger \<Rightarrow> Locals \<Rightarrow> PoolStructure \<Rightarrow> SdkPair \<Rightarrow> Simulation \<Rightarrow> string \<Rightarrow> SwapResult" where
  "successResult env c pool pr simulation txHash =
     \<lparr>fromToken = fromToken c, toToken = toToken c, fromAmount = fromAmount c,
      transactionHash = txHash,
      estimatedToAmount =
        (case accumulatedAmountOut simulation of
           None \<Rightarrow> None
         | Some out \<Rightarrow> Some (BN_div out (10 ^ decimals (toTokenInfo c)))),
      poolUsed = (getAddress env pr, fee pool)\<rparr>"

text \<open>
  The body of the loop for the pool at index \<open>i\<close>: everything inside \<open>try\<close>, with
  \<open>continue\<close> and the \<open>catch\<close> block as \<open>Continue\<close>. The statements that can throw
  are, in this order, the \<open>Pair\<close> constructor, \<open>toDecimal\<close>, the simulation, the
  execution, and the \<open>toNumber()\<close> of the fee in the success object.
\<close>

definition tryPool ::
  "Ledger \<Rightarrow> Locals \<Rightarrow> nat \<Rightarrow> PoolStructure \<Rightarrow> World \<Rightarrow> SwapResult Step \<times> World" where
  "tryPool env c i pool w =
     (case pairOfPool env pool of
        Inl (Error msg) \<Rightarrow> (Continue, say (PoolFailed (i + 1) msg) w)
      | Inr pr \<Rightarrow>
     (case toDecimal env (slippagePercent c) 2 of
        Inl msg \<Rightarrow> (Continue, say (PoolFailed (i + 1) msg) w)
      | Inr slippageDecimal \<Rightarrow>
          let simArgs = simulationArgs env (mint (fromTokenInfo c)) (swapAmount c)
                          slippageDecimal pr;
              w1 = emit (SwapSimulation simArgs) w
          in
          (case swapSimulation env (trace w) simArgs of
             Inl msg \<Rightarrow> (Continue, say (PoolFailed (i + 1) msg) w1)
           | Inr simulation \<Rightarrow>
               if status simulation \<noteq> Ok
               then (Continue, say (PoolSimulationFailed (i + 1) (status simulation)) w1)
               else
                 let args = executionArgs env c slippageDecimal pr (priceAfterSwap simulation);
                     w2 = emit (MarketSwap args) w1
                 in
                 (case swap env (trace w1) args of
                    Inl msg \<Rightarrow> (Continue, say (PoolFailed (i + 1) msg) w2)
                  | Inr txHash \<Rightarrow>
                      (case BN_toNumber (fee pool) of
                         Inl (Error msg) \<Rightarrow> (Continue, say (PoolFailed (i + 1) msg) w2)
                       | Inr _ \<Rightarrow>
                           (Return (successResult env c pool pr simulation txHash), w2))))))"

fun tryPools ::
  "Ledger \<Rightarrow> Locals \<Rightarrow> nat \<Rightarrow> PoolStructure list \<Rightarrow> World \<Rightarrow> SwapResult option \<times> World" where
  "tryPools env c i [] w = (None, w)"
| "tryPools env c i (pool # pools) w =
     (case tryPool env c i pool w of
        (Return result, w') \<Rightarrow> (Some result, w')
      | (Continue, w') \<Rightarrow> tryPools env c (i + 1) pools w')"

text \<open>
  Lines 229 to 248 of the server: everything \<open>performTokenSwap\<close> does before the loop. It
  yields the local variables and the pools, or the error thrown.
\<close>

definition prepareSwap ::
  "Ledger \<Rightarrow> string \<Rightarrow> string \<Rightarrow> rat \<Rightarrow> rat \<Rightarrow> string \<Rightarrow> World
     \<Rightarrow> (Error + Locals \<times> PoolStructure list) \<times> World" where
  "prepareSwap env fromTok toTok amt slippagePct privateKey w =
     (case createKeypairFromPrivateKey env privateKey of
        Inl e \<Rightarrow> (Inl e, w)
      | Inr kp \<Rightarrow>
     (case initializeMarket env w of
        (Inl e, w1) \<Rightarrow> (Inl e, w1)
      | (Inr _, w1) \<Rightarrow>
     (case getTokenInfo fromTok of
        Inl e \<Rightarrow> (Inl e, w1)
      | Inr fromInfo \<Rightarrow>
     (case getTokenInfo toTok of
        Inl e \<Rightarrow> (Inl e, w1)
      | Inr toInfo \<Rightarrow>
     (case BN_ofNumber amt of
        Inl e \<Rightarrow> (Inl e, w1)
      | Inr a \<Rightarrow>
     (case findBestPoolForPair env (mint fromInfo) (mint toInfo) w1 of
        (Inl e, w2) \<Rightarrow> (Inl e, w2)
      | (Inr pools, w2) \<Rightarrow>
          if pools = []
          then (Inl (Error (''No liquidity pools found for '' @ fromTok @ ''/'' @ toTok @ '' pair'')), w2)
          else
     (case createTokenAccountIfNeeded env (mint fromInfo) kp (tokenProgram fromInfo) w2 of
        (Inl e, w3) \<Rightarrow> (Inl e, w3)
      | (Inr _, w3) \<Rightarrow>
     (case createTokenAccountIfNeeded env (mint toInfo) kp (tokenProgram toInfo) w3 of
        (Inl e, w4) \<Rightarrow> (Inl e, w4)
      | (Inr _, w4) \<Rightarrow>
          (Inr (\<lparr>fromToken = fromTok, toToken = toTok, fromAmount = amt,
                 fromTokenInfo = fromInfo, toTokenInfo = toInfo,
                 swapAmount = a * 10 ^ decimals fromInfo,
                 slippagePercent = slippagePct, keypair = kp\<rparr>, pools), w4)))))))))"

definition performTokenSwap ::
  "Ledger \<Rightarrow> string \<Rightarrow> string \<Rightarrow> rat \<Rightarrow> rat \<Rightarrow> string \<Rightarrow> World \<Rightarrow> (Error + SwapResult) \<times> World" where
  "performTokenSwap env fromTok toTok amt slippagePct privateKey w =
     (case prepareSwap env fromTok toTok amt slippagePct privateKey w of
        (Inl e, w') \<Rightarrow> (Inl e, w')
      | (Inr (c, pools), w') \<Rightarrow>
          (case tryPools env c 0 pools w' of
             (Some result, w'') \<Rightarrow> (Inr result, w'')
           | (None, w'') \<Rightarrow> (Inl (Error ''All available pools failed for this swap''), w'')))"

section \<open>Server: the routes \<open>POST /api/swap\<close> and \<open>POST /api/quote\<close>\<close>

datatype 'a Response = Json 'a | StatusError nat string

text \<open>
  The body fields are text, numbers and an optional \<open>slippage\<close> with default \<open>0.5\<close>; the
  empty text and the number zero are the falsy values of \<open>!fromToken\<close> and \<open>!amount\<close>.
\<close>

definition apiSwap ::
  "Ledger \<Rightarrow> string \<Rightarrow> string \<Rightarrow> rat \<Rightarrow> rat option \<Rightarrow> string \<Rightarrow> World
     \<Rightarrow> SwapResult Response \<times> World" where
  "apiSwap env fromTok toTok amt slippageField privateKey w =
     (let slippagePct = (case slippageField of None \<Rightarrow> 1 / 2 | Some s \<Rightarrow> s) in
      if fromTok = [] \<or> toTok = [] \<or> amt = 0 \<or> privateKey = []
      then (StatusError 400 ''fromToken, toToken, amount, and privateKey are required'', w)
      else if toUpperCase fromTok = toUpperCase toTok
      then (StatusError 400 ''Cannot swap the same token'', w)
      else if amt \<le> 0
      then (StatusError 400 ''Amount must be greater than 0'', w)
      else if slippagePct < 0 \<or> 50 < slippagePct
      then (StatusError 400 ''Slippage must be between 0 and 50 percent'', w)
      else
        (case performTokenSwap env fromTok toTok amt slippagePct privateKey w of
           (Inr result, w') \<Rightarrow> (Json result, w')
         | (Inl (Error msg), w') \<Rightarrow> (StatusError 500 msg, say (SwapError msg) w')))"

text \<open>
  The quote response: \<open>estimatedToAmount\<close> and \<open>priceImpact\<close> (\<open>None\<close> for \<open>N/A\<close>); the
  formatted \<open>fee\<close> and \<open>slippage\<close> texts are left out, the \<open>toNumber()\<close> of the fee is not.
  The route does not validate \<open>slippage\<close>; when \<open>toDecimal\<close> throws, the \<open>catch\<close> block
  answers with status 500 before anything is simulated.
\<close>

record QuoteResult = SwapRequest +
  quoteToAmount :: int
  quotePriceImpact :: "int option"

definition statusText :: "SimulationStatus \<Rightarrow> string" where
  "statusText s = (case s of Ok \<Rightarrow> ''0'' | NotOk t \<Rightarrow> t)"

definition apiQuote ::
  "Ledger \<Rightarrow> string \<Rightarrow> string \<Rightarrow> rat \<Rightarrow> rat option \<Rightarrow> World \<Rightarrow> QuoteResult Response \<times> World" where
  "apiQuote env fromTok toTok amt slippageField w =
     (let slippagePct = (case slippageField of None \<Rightarrow> 1 / 2 | Some s \<Rightarrow> s) in
      if fromTok = [] \<or> toTok = [] \<or> amt = 0
      then (StatusError 400 ''fromToken, toToken, and amount are required'', w)
      else
     (case getTokenInfo fromTok of
        Inl (Error msg) \<Rightarrow> (StatusError 500 msg, w)
      | Inr fromInfo \<Rightarrow>
     (case getTokenInfo toTok of
        Inl (Error msg) \<Rightarrow> (StatusError 500 msg, w)
      | Inr toInfo \<Rightarrow>
     (case BN_ofNumber amt of
        Inl (Error msg) \<Rightarrow> (StatusError 500 msg, w)
      | Inr a \<Rightarrow>
     (case initializeMarket env w of
        (Inl (Error msg), w1) \<Rightarrow> (StatusError 500 msg, w1)
      | (Inr _, w1) \<Rightarrow>
     (case findBestPoolForPair env (mint fromInfo) (mint toInfo) w1 of
        (Inl (Error msg), w2) \<Rightarrow> (StatusError 500 msg, w2)
      | (Inr [], w2) \<Rightarrow>
          (StatusError 400
             (''No liquidity pools found for '' @ fromTok @ ''/'' @ toTok @ '' pair''), w2)
      | (Inr (pool # _), w2) \<Rightarrow>
     (case pairOfPool env pool of
        Inl (Error msg) \<Rightarrow> (StatusError 500 msg, w2)
      | Inr pr \<Rightarrow>
     (case toDecimal env slippagePct 2 of
        Inl msg \<Rightarrow> (StatusError 500 msg, w2)
      | Inr slippageDecimal \<Rightarrow>
          let args = simulationArgs env (mint fromInfo) (a * 10 ^ decimals fromInfo)
                       slippageDecimal pr;
              w3 = emit (SwapSimulation args) w2
          in
     (case swapSimulation env (trace w2) args of
        Inl msg \<Rightarrow> (StatusError 500 msg, w3)
      | Inr simulation \<Rightarrow>
          if status simulation \<noteq> Ok
          then (StatusError 400 (''Simulation failed: '' @ statusText (status simulation)), w3)
          else
     (case accumulatedAmountOut simulation of
        None \<Rightarrow> (StatusError 500 ''Cannot read properties of undefined'', w3)
      | Some out \<Rightarrow>
     (case BN_toNumber (fee pool) of
        Inl (Error msg) \<Rightarrow> (StatusError 500 msg, w3)
      | Inr _ \<Rightarrow>
          (Json \<lparr>fromToken = fromTok, toToken = toTok, fromAmount = amt,
                 quoteToAmount = BN_div out (10 ^ decimals toInfo),
                 quotePriceImpact = priceImpact simulation\<rparr>, w3))))))))))))"

section \<open>Scripts with a fixed pair\<close>

text \<open>
  The scripts trade fixed mints for the wallet of the process, here the parameter \<open>wallet\<close>.
  Their console output is not modelled.
\<close>

definition SOL_MINT :: PublicKey where
  "SOL_MINT = ''BeRUj3h7BqkbdfFU7FBNYbodgf8GCHodzKvF9aVjNNfL''"

definition USDT_MINT :: PublicKey where
  "USDT_MINT = ''CEBP3CqAbW4zdZA57H2wfaSG1QNdzQ72GiQEbQXyW9Tm''"

definition USDC_MINT :: PublicKey where
  "USDC_MINT = ''AKEWE7Bgh87GPp171b4cJPSSZfmZwQ3KaqYqXoKLNAEE''"

definition ETH_MINT :: PublicKey where
  "ETH_MINT = NATIVE_MINT"

subsection \<open>\<open>swap.ts\<close>: \<open>InvariantEclipseTrader.swapSolToUsdt\<close>\<close>

text \<open>
  \<open>ensureTokenAccounts\<close> looks both accounts up and creates the missing ones in one
  transaction.
\<close>

definition ensureTokenAccounts ::
  "Ledger \<Rightarrow> PublicKey \<Rightarrow> World \<Rightarrow> (Error + PublicKey \<times> PublicKey) \<times> World" where
  "ensureTokenAccounts env wallet w =
     (let solTokenAccount = getAssociatedTokenAddressSync env SOL_MINT wallet TOKEN_PROGRAM_ID;
          usdtTokenAccount = getAssociatedTokenAddressSync env USDT_MINT wallet TOKEN_PROGRAM_ID;
          w1 = emit (GetAccount solTokenAccount) w;
          missingSol = (if getAccount env (trace w) solTokenAccount = None
                        then [solTokenAccount] else []);
          w2 = emit (GetAccount usdtTokenAccount) w1;
          missing = missingSol @ (if getAccount env (trace w1) usdtTokenAccount = None
                                  then [usdtTokenAccount] else [])
      in if missing = [] then (Inr (solTokenAccount, usdtTokenAccount), w2)
         else (case sendAndConfirmTransaction env (trace w2) missing of
                 Some msg \<Rightarrow> (Inl (Error msg), emit (SendTransaction missing) w2)
               | None \<Rightarrow> (Inr (solTokenAccount, usdtTokenAccount),
                            emit (SendTransaction missing) w2)))"

text \<open>
  The fee \<open>new BN(DEFAULT_FEE * 1000)\<close> is 6, the slippage \<open>new BN(DEFAULT_SLIPPAGE * 100)\<close> is
  1 and the amount \<open>new BN(LAMPORTS_PER_SOL / 2)\<close> is 500000000.
\<close>

definition swapSolToUsdt :: "Ledger \<Rightarrow> PublicKey \<Rightarrow> World \<Rightarrow> (Error + string) \<times> World" where
  "swapSolToUsdt env wallet w =
     (case marketBuild env (trace w) of
        Some msg \<Rightarrow> (Inl (Error msg), emit MarketBuild w)
      | None \<Rightarrow>
     (case ensureTokenAccounts env wallet (emit MarketBuild w) of
        (Inl e, w1) \<Rightarrow> (Inl e, w1)
      | (Inr (accX, accY), w1) \<Rightarrow>
     (case newPair (keyLess env) SOL_MINT USDT_MINT (6, 10) of
        Inl e \<Rightarrow> (Inl e, w1)
      | Inr pr \<Rightarrow>
          let args = \<lparr>xToY = True, byAmountIn = True, amount = 500000000, slippage = 1,
                      estimatedPriceAfterSwap = 1, pair = pr,
                      accountX = accX, accountY = accY, owner = wallet\<rparr>
          in (case swap env (trace w1) args of
                Inl msg \<Rightarrow> (Inl (Error msg), emit (MarketSwap args) w1)
              | Inr txHash \<Rightarrow> (Inr txHash, emit (MarketSwap args) w1)))))"

subsection \<open>\<open>app.ts\<close>: \<open>swapEthToUsdt\<close> and \<open>performDocumentationStyleSwap\<close>\<close>

definition getAvailableWrappedSolBalance :: "Ledger \<Rightarrow> PublicKey \<Rightarrow> World \<Rightarrow> int \<times> World" where
  "getAvailableWrappedSolBalance env wallet w =
     (let associatedTokenAddress =
            getAssociatedTokenAddressSync env ETH_MINT wallet TOKEN_PROGRAM_ID
      in (case getAccount env (trace w) associatedTokenAddress of
            None \<Rightarrow> (0, emit (GetAccount associatedTokenAddress) w)
          | Some balance \<Rightarrow> (balance, emit (GetAccount associatedTokenAddress) w)))"

definition checkPoolExists :: "Ledger \<Rightarrow> SdkPair \<Rightarrow> World \<Rightarrow> bool \<times> World" where
  "checkPoolExists env pr w =
     (case getAllPools env (trace w) of
        Inl _ \<Rightarrow> (False, emit GetAllPools w)
      | Inr pools \<Rightarrow>
          (list_ex (\<lambda>pool. (tokenX pool = tokenX pr \<and> tokenY pool = tokenY pr) \<or>
                            (tokenX pool = tokenY pr \<and> tokenY pool = tokenX pr)) pools,
           emit GetAllPools w))"

definition stableProgram :: "PublicKey \<Rightarrow> TokenProgram" where
  "stableProgram key =
     (if key = USDT_MINT \<or> key = USDC_MINT then TOKEN_2022_PROGRAM_ID else TOKEN_PROGRAM_ID)"

text \<open>
  \<open>swapEthToUsdt\<close> catches every error of its \<open>try\<close> block and returns nothing; the model
  returns the transaction hash when the swap went through.
\<close>

definition swapEthToUsdt :: "Ledger \<Rightarrow> PublicKey \<Rightarrow> World \<Rightarrow> string option \<times> World" where
  "swapEthToUsdt env wallet w =
     (case getAvailableWrappedSolBalance env wallet w of (wrappedSolBalance, w1) \<Rightarrow>
      let swapAmt = BN_div (wrappedSolBalance * 40) 100 in
      if swapAmt = 0 then (None, w1)
      else
     (case newPair (keyLess env) ETH_MINT USDT_MINT (1000, 1) of
        Inl _ \<Rightarrow> (None, w1)
      | Inr pr \<Rightarrow>
     (case checkPoolExists env pr w1 of
        (False, w2) \<Rightarrow> (None, w2)
      | (True, w2) \<Rightarrow>
     (case toDecimal env 0 0 of
        Inl _ \<Rightarrow> (None, w2)
      | Inr slippageDecimal \<Rightarrow>
          let simArgs = \<lparr>xToY = False, byAmountIn = True, amount = swapAmt,
                         slippage = slippageDecimal,
                         poolAddress = getAddress env pr,
                         maxCrosses = TICK_CROSSES_PER_IX_NATIVE_TOKEN\<rparr>;
              w3 = emit (SwapSimulation simArgs) w2
          in
     (case swapSimulation env (trace w2) simArgs of
        Inl _ \<Rightarrow> (None, w3)
      | Inr simulation \<Rightarrow>
          if status simulation \<noteq> Ok then (None, w3)
          else
            let args = \<lparr>xToY = (tokenX pr = ETH_MINT), byAmountIn = True, amount = swapAmt,
                        slippage = slippageDecimal,
                        estimatedPriceAfterSwap = priceAfterSwap simulation, pair = pr,
                        accountX = getAssociatedTokenAddressSync env (tokenX pr) wallet
                          (if tokenX pr = USDT_MINT then TOKEN_2022_PROGRAM_ID else TOKEN_PROGRAM_ID),
                        accountY = getAssociatedTokenAddressSync env (tokenY pr) wallet
                          (if tokenY pr = USDT_MINT then TOKEN_2022_PROGRAM_ID else TOKEN_PROGRAM_ID),
                        owner = wallet\<rparr>
            in (case swap env (trace w3) args of
                  Inl _ \<Rightarrow> (None, emit (MarketSwap args) w3)
                | Inr txHash \<Rightarrow> (Some txHash, emit (MarketSwap args) w3)))))))"

text \<open>
  The loop of \<open>performDocumentationStyleSwap\<close> over its token pairs. A throwing \<open>Pair\<close>
  constructor or \<open>toDecimal(0, 0)\<close>, whose value is not used, leaves the loop through the
  outer \<open>catch\<close>.
\<close>

fun documentationStylePairs ::
  "Ledger \<Rightarrow> PublicKey \<Rightarrow> int \<Rightarrow> (PublicKey \<times> PublicKey) list \<Rightarrow> World \<Rightarrow> string option \<times> World" where
  "documentationStylePairs env wallet swapAmt [] w = (None, w)"
| "documentationStylePairs env wallet swapAmt ((tokenA, tokenB) # rest) w =
     (case newPair (keyLess env) tokenA tokenB (1000, 1) of
        Inl _ \<Rightarrow> (None, w)
      | Inr wrappedEthPair \<Rightarrow>
     (case checkPoolExists env wrappedEthPair w of
        (False, w1) \<Rightarrow> documentationStylePairs env wallet swapAmt rest w1
      | (True, w1) \<Rightarrow>
     (case toDecimal env 0 0 of
        Inl _ \<Rightarrow> (None, w1)
      | Inr _ \<Rightarrow>
          let args = \<lparr>xToY = False, byAmountIn = True, amount = swapAmt, slippage = 100,
                      estimatedPriceAfterSwap = 1, pair = wrappedEthPair,
                      accountX = getAssociatedTokenAddressSync env (tokenX wrappedEthPair) wallet
                        (stableProgram (tokenX wrappedEthPair)),
                      accountY = getAssociatedTokenAddressSync env (tokenY wrappedEthPair) wallet
                        (stableProgram (tokenY wrappedEthPair)),
                      owner = wallet\<rparr>
          in (case swap env (trace w1) args of
                Inl _ \<Rightarrow> documentationStylePairs env wallet swapAmt rest (emit (MarketSwap args) w1)
              | Inr txHash \<Rightarrow> (Some txHash, emit (MarketSwap args) w1)))))"

definition performDocumentationStyleSwap ::
  "Ledger \<Rightarrow> PublicKey \<Rightarrow> World \<Rightarrow> string option \<times> World" where
  "performDocumentationStyleSwap env wallet w =
     (case getAvailableWrappedSolBalance env wallet w of (wrappedSolBalance, w1) \<Rightarrow>
      let swapAmt = BN_div (wrappedSolBalance * 40) 100 in
      if swapAmt = 0 then (None, w1)
      else documentationStylePairs env wallet swapAmt
             [(ETH_MINT, USDT_MINT), (ETH_MINT, USDC_MINT)] w1)"

section \<open>Notions used in the statements\<close>

text \<open>
  The canonical pair of two distinct keys has the key that precedes the other one as
  \<open>tokenX\<close>. The canonical pair of a pool has the two tokens of the pool in this order and
  the fee tier of the pool, with tick spacing 1 when the pool has none.
\<close>

definition canonicalOrder ::
  "(PublicKey \<Rightarrow> PublicKey \<Rightarrow> bool) \<Rightarrow> PublicKey \<Rightarrow> PublicKey \<Rightarrow> FeeTier \<Rightarrow> SdkPair" where
  "canonicalOrder precedes a b ft =
     \<lparr>tokenX = (if precedes a b then a else b), tokenY = (if precedes a b then b else a),
      feeTier = ft\<rparr>"

definition canonicalPair :: "Ledger \<Rightarrow> PoolStructure \<Rightarrow> SdkPair" where
  "canonicalPair env pool =
     canonicalOrder (keyLess env) (tokenX pool) (tokenY pool)
       (fee pool, (case tickSpacing pool of None \<Rightarrow> 1 | Some n \<Rightarrow> if n = 0 then 1 else n))"

text \<open>
  An event is issued for a pool when the pool has two distinct tokens, the slippage of the
  request converts, and the event is the simulation or an execution with the arguments of
  the request for the canonical pair of that pool.
\<close>

definition issuedFor :: "Ledger \<Rightarrow> Locals \<Rightarrow> PoolStructure \<Rightarrow> Event \<Rightarrow> bool" where
  "issuedFor env c pool e \<longleftrightarrow>
     tokenX pool \<noteq> tokenY pool \<and>
     (case toDecimal env (slippagePercent c) 2 of
        Inl _ \<Rightarrow> False
      | Inr d \<Rightarrow>
          (case e of
             SwapSimulation a \<Rightarrow>
               a = simulationArgs env (mint (fromTokenInfo c)) (swapAmount c) d
                     (canonicalPair env pool)
           | MarketSwap a \<Rightarrow>
               a = executionArgs env c d (canonicalPair env pool) (estimatedPriceAfterSwap a)
           | _ \<Rightarrow> False))"

definition isSimulation :: "Event \<Rightarrow> bool" where
  "isSimulation e = (case e of SwapSimulation _ \<Rightarrow> True | _ \<Rightarrow> False)"

definition isExecution :: "Event \<Rightarrow> bool" where
  "isExecution e = (case e of MarketSwap _ \<Rightarrow> True | _ \<Rightarrow> False)"


text \<open>
  What the simulations and executions in a sequence of events were given: the amounts, the
  directions, and the price bounds of the executions.
\<close>

fun tradedAmounts :: "Event list \<Rightarrow> int list" where
  "tradedAmounts [] = []"
| "tradedAmounts (SwapSimulation a # es) = amount a # tradedAmounts es"
| "tradedAmounts (MarketSwap a # es) = amount a # tradedAmounts es"
| "tradedAmounts (_ # es) = tradedAmounts es"

fun simulatedDirections :: "Event list \<Rightarrow> bool list" where
  "simulatedDirections [] = []"
| "simulatedDirections (SwapSimulation a # es) = xToY a # simulatedDirections es"
| "simulatedDirections (_ # es) = simulatedDirections es"

fun executedDirections :: "Event list \<Rightarrow> (bool \<times> PublicKey) list" where
  "executedDirections [] = []"
| "executedDirections (MarketSwap a # es) = (xToY a, tokenX (pair a)) # executedDirections es"
| "executedDirections (_ # es) = executedDirections es"

fun executedPrices :: "Event list \<Rightarrow> int list" where
  "executedPrices [] = []"
| "executedPrices (MarketSwap a # es) = estimatedPriceAfterSwap a # executedPrices es"
| "executedPrices (_ # es) = executedPrices es"

text \<open>
  A sequence of events, issued after the events \<open>h\<close>, couples every execution to a fresh
  simulation when the event right before each execution is a simulation of the executed
  pair's pool, the ledger answered that simulation with status \<open>Ok\<close>, and the price bound of
  the execution is the \<open>priceAfterSwap\<close> of that answer.
\<close>

fun coupled :: "Ledger \<Rightarrow> Event list \<Rightarrow> Event list \<Rightarrow> bool" where
  "coupled env h [] = True"
| "coupled env h (MarketSwap x # es) =
     ((case rev h of
         SwapSimulation s # earlier \<Rightarrow>
           (case swapSimulation env (rev earlier) s of
              Inl _ \<Rightarrow> False
            | Inr simulation \<Rightarrow>
                status simulation = Ok \<and>
                estimatedPriceAfterSwap x = priceAfterSwap simulation \<and>
                poolAddress s = getAddress env (pair x))
       | _ \<Rightarrow> False) \<and>
      coupled env (h @ [MarketSwap x]) es)"
| "coupled env h (e # es) = coupled env (h @ [e]) es"

text \<open>
  The console line that tells why the candidate with number \<open>n\<close>, tried after the events
  \<open>h\<close>, did not succeed, and \<open>None\<close> when it succeeds. The reason is the message of the
  first error thrown (by the \<open>Pair\<close> constructor for a pool with two equal tokens, by
  \<open>toDecimal\<close>, by the simulation, by the execution, or by the \<open>toNumber()\<close> of a fee that
  does not fit 53 bits), or the status of a simulation that the ledger answered with a status
  other than \<open>Ok\<close>.
\<close>

definition failureLine ::
  "Ledger \<Rightarrow> Locals \<Rightarrow> nat \<Rightarrow> PoolStructure \<Rightarrow> Event list \<Rightarrow> Console option" where
  "failureLine env c n pool h =
     (if tokenX pool = tokenY pool
      then Some (PoolFailed n ''Pair must contain two unique public keys'')
      else
        (case toDecimal env (slippagePercent c) 2 of
           Inl msg \<Rightarrow> Some (PoolFailed n msg)
         | Inr d \<Rightarrow>
             (case swapSimulation env h
                     (simulationArgs env (mint (fromTokenInfo c)) (swapAmount c) d
                        (canonicalPair env pool)) of
                Inl msg \<Rightarrow> Some (PoolFailed n msg)
              | Inr simulation \<Rightarrow>
                  if status simulation \<noteq> Ok
                  then Some (PoolSimulationFailed n (status simulation))
                  else
                    (case swap env
                            (h @ [SwapSimulation
                                    (simulationArgs env (mint (fromTokenInfo c)) (swapAmount c) d
                                       (canonicalPair env pool))])
                            (executionArgs env c d (canonicalPair env pool)
                               (priceAfterSwap simulation)) of
                       Inl msg \<Rightarrow> Some (PoolFailed n msg)
                     | Inr _ \<Rightarrow>
                         if \<bar>fee pool\<bar> < 2 ^ 53 then None
                         else Some (PoolFailed n ''Number can only safely store up to 53 bits'')))))"

text \<open>The pool number that a console line of the loop reports.\<close>

definition poolNumber :: "Console \<Rightarrow> nat option" where
  "poolNumber l =
     (case l of PoolSimulationFailed n _ \<Rightarrow> Some n | PoolFailed n _ \<Rightarrow> Some n | _ \<Rightarrow> None)"

text \<open>
  The ordering of keys by their base58 text, which is the one the \<open>Pair\<close> constructor of the
  SDK applies (\<open>first.toString() < second.toString()\<close>).
\<close>

definition textLess :: "PublicKey \<Rightarrow> PublicKey \<Rightarrow> bool" where
  "textLess a b \<longleftrightarrow> a < b"

section \<open>Sample environments\<close>

definition World0 :: World where
  "World0 = \<lparr>trace = [], console = []\<rparr>"

definition sampleAddress :: "SdkPair \<Rightarrow> PublicKey" where
  "sampleAddress pr =
     (if fst (feeTier pr) = 100000000 then ''pool-A''
      else if fst (feeTier pr) = 500000000 then ''pool-B'' else ''pool-C'')"

text \<open>
  A ledger that answers every call the same way each time: the market builds, every account
  exists with balance 1000, \<open>toDecimal\<close> throws from \<open>2^26\<close> on, and the pools, the
  simulation and the execution are as given.
\<close>

definition sampleLedger ::
  "(PublicKey \<Rightarrow> PublicKey \<Rightarrow> bool) \<Rightarrow> PoolStructure list \<Rightarrow> (SimArgs \<Rightarrow> string + Simulation)
     \<Rightarrow> (SwapArgs \<Rightarrow> string + string) \<Rightarrow> Ledger" where
  "sampleLedger precedes pools sim exec =
     \<lparr>keyLess = precedes,
      fromSecretKey = (\<lambda>k. if k = [] then None else Some ''wallet''),
      getAssociatedTokenAddressSync = (\<lambda>m ownr prog. ''ata-'' @ take 4 m),
      getAddress = sampleAddress,
      toDecimal = (\<lambda>x d. if \<bar>x\<bar> < 2 ^ 26 then Inr \<lfloor>x * 10 ^ (12 - d)\<rfloor>
                         else Inl ''Assertion failed''),
      marketBuild = (\<lambda>h. None),
      getAllPools = (\<lambda>h. Inr pools),
      getAccount = (\<lambda>h a. Some 1000),
      sendAndConfirmTransaction = (\<lambda>h a. None),
      swapSimulation = (\<lambda>h. sim),
      swap = (\<lambda>h. exec)\<rparr>"

definition simulationOk :: "SimArgs \<Rightarrow> string + Simulation" where
  "simulationOk a =
     Inr \<lparr>status = Ok, priceAfterSwap = 42, accumulatedAmountOut = Some 2500000,
          priceImpact = None\<rparr>"

definition simulationNotOk :: "SimArgs \<Rightarrow> string + Simulation" where
  "simulationNotOk a =
     Inr \<lparr>status = NotOk ''Too large liquidity gap'', priceAfterSwap = 0,
          accumulatedAmountOut = None, priceImpact = None\<rparr>"

definition executionOk :: "SwapArgs \<Rightarrow> string + string" where
  "executionOk a = Inr ''tx-hash''"

definition executionFails :: "SwapArgs \<Rightarrow> string + string" where
  "executionFails a = Inl ''Transaction simulation failed''"

text \<open>
  The pools of the scenarios: USDT/ETH at fees 500000000 and 100000000, a second USDT/ETH
  pool at fee 100000000 with another tick spacing, a USDT/ETH pool at fee 900000000 without
  tick spacing, and a WBTC/USDC pool.
\<close>

definition poolA :: PoolStructure where
  "poolA = \<lparr>tokenX = USDT_MINT, tokenY = NATIVE_MINT, fee = 100000000, tickSpacing = Some 1\<rparr>"

definition poolA' :: PoolStructure where
  "poolA' = \<lparr>tokenX = USDT_MINT, tokenY = NATIVE_MINT, fee = 100000000, tickSpacing = Some 5\<rparr>"

definition poolB :: PoolStructure where
  "poolB = \<lparr>tokenX = USDT_MINT, tokenY = NATIVE_MINT, fee = 500000000, tickSpacing = Some 10\<rparr>"

definition poolC :: PoolStructure where
  "poolC = \<lparr>tokenX = USDT_MINT, tokenY = NATIVE_MINT, fee = 900000000, tickSpacing = None\<rparr>"

definition poolForeign :: PoolStructure where
  "poolForeign = \<lparr>tokenX = ''9n4nbM75f5Ui33ZbPYXn59EwSgE8CGsHtAeTH5YFeJ9E'', tokenY = USDC_MINT,
                   fee = 100000000, tickSpacing = Some 1\<rparr>"

text \<open>The first candidate's simulation reports a non-success status, the second one's is fine.\<close>

definition simulationSecondOnly :: "SimArgs \<Rightarrow> string + Simulation" where
  "simulationSecondOnly a = (if poolAddress a = ''pool-A'' then simulationNotOk a else simulationOk a)"

text \<open>
  Two pools whose fee does not fit 53 bits: \<open>2^53\<close> and \<open>2^53 + 1\<close>.
\<close>

definition poolHuge :: PoolStructure where
  "poolHuge = \<lparr>tokenX = USDT_MINT, tokenY = NATIVE_MINT, fee = 9007199254740992,
                tickSpacing = Some 1\<rparr>"

definition poolHuge' :: PoolStructure where
  "poolHuge' = \<lparr>tokenX = USDT_MINT, tokenY = NATIVE_MINT, fee = 9007199254740993,
                 tickSpacing = Some 1\<rparr>"

definition ledgerTwoPools :: Ledger where
  "ledgerTwoPools = sampleLedger textLess [poolB, poolForeign, poolA] simulationSecondOnly executionOk"

definition ledgerThreePools :: Ledger where
  "ledgerThreePools =
     sampleLedger textLess [poolC, poolB, poolForeign, poolA] simulationSecondOnly executionOk"

definition ledgerSimulationsFail :: Ledger where
  "ledgerSimulationsFail = sampleLedger textLess [poolB, poolA] simulationNotOk executionOk"

definition ledgerExecutionsFail :: Ledger where
  "ledgerExecutionsFail = sampleLedger textLess [poolB, poolA] simulationOk executionFails"

definition ledgerNoMatch :: Ledger where
  "ledgerNoMatch = sampleLedger textLess [poolForeign] simulationOk executionOk"

definition ledgerHugeFees :: Ledger where
  "ledgerHugeFees = sampleLedger textLess [poolHuge, poolHuge'] simulationOk executionOk"

definition ledgerText :: Ledger where
  "ledgerText = sampleLedger textLess [poolB] simulationOk executionOk"

text \<open>
  The local variables of a request for one ETH to USDT and of a request for one USDT to ETH,
  at the default slippage.
\<close>

definition sampleLocals :: Locals where
  "sampleLocals =
     \<lparr>fromToken = ''ETH'', toToken = ''USDT'', fromAmount = 1,
      fromTokenInfo = \<lparr>mint = NATIVE_MINT, decimals = 9, tokenProgram = TOKEN_PROGRAM_ID\<rparr>,
      toTokenInfo = \<lparr>mint = USDT_MINT, decimals = 6, tokenProgram = TOKEN_2022_PROGRAM_ID\<rparr>,
      swapAmount = 1000000000, slippagePercent = 1 / 2, keypair = ''wallet''\<rparr>"


section \<open>Basic facts\<close>

lemmas sample_defs = sampleLedger_def sampleAddress_def simulationOk_def simulationNotOk_def
  simulationSecondOnly_def executionOk_def executionFails_def poolA_def poolA'_def poolB_def
  poolC_def poolForeign_def poolHuge_def poolHuge'_def World0_def textLess_def
  USDT_MINT_def USDC_MINT_def NATIVE_MINT_def ETH_MINT_def SOL_MINT_def

lemmas server_defs = apiSwap_def performTokenSwap_def prepareSwap_def tryPool_def
  createKeypairFromPrivateKey_def initializeMarket_def getTokenInfo_def TOKEN_REGISTRY_def
  toUpperCase_def toUpperCaseChar_def BN_ofNumber_def BN_toNumber_def BN_div_def
  findBestPoolForPair_def relevant_def createTokenAccountIfNeeded_def pairOfPool_def newPair_def
  simulationArgs_def executionArgs_def successResult_def emit_def say_def
  TICK_CROSSES_PER_IX_NATIVE_TOKEN_def

lemmas script_defs = performDocumentationStyleSwap_def swapEthToUsdt_def swapSolToUsdt_def
  getAvailableWrappedSolBalance_def checkPoolExists_def ensureTokenAccounts_def stableProgram_def
  newPair_def BN_div_def emit_def TICK_CROSSES_PER_IX_NATIVE_TOKEN_def

lemma trace_emit [simp]: "trace (emit e w) = trace w @ [e]"
  by (simp add: emit_def)

lemma console_emit [simp]: "console (emit e w) = console w"
  by (simp add: emit_def)

lemma trace_say [simp]: "trace (say l w) = trace w"
  by (simp add: say_def)

lemma console_say [simp]: "console (say l w) = console w @ [l]"
  by (simp add: say_def)

text \<open>
  The \<open>Pair\<close> constructor applied to a pool throws exactly when the pool's two tokens are
  equal, and otherwise yields the canonical pair of the pool.
\<close>

lemma pairOfPool_canonical:
  "pairOfPool env pool =
     (if tokenX pool = tokenY pool then Inl (Error ''Pair must contain two unique public keys'')
      else Inr (canonicalPair env pool))"
  by (simp add: pairOfPool_def newPair_def canonicalPair_def canonicalOrder_def)

section \<open>Pool discovery\<close>

text \<open>
  C3. Whenever the ledger enumerates its pools, the candidates that \<open>findBestPoolForPair\<close>
  returns for a pair of tokens are sorted by fee, non-decreasing, and the pools of any one
  fee appear in the order in which the ledger enumerated them: the sort is stable.
\<close>

theorem findBestPoolForPair_sorted_stable:
  assumes "getAllPools env (trace w) = Inr allPools"
  shows "\<exists>pools. fst (findBestPoolForPair env tokenA tokenB w) = Inr pools \<and>
           sorted (map fee pools) \<and>
           (\<forall>k. filter (\<lambda>p. fee p = k) pools =
                filter (\<lambda>p. fee p = k) (filter (relevant tokenA tokenB) allPools))"
  using assms by (simp add: findBestPoolForPair_def sort_key_stable)

text \<open>
  Four pools enumerated at fees 500000000, 100000000, 100000000 (another pair) and 100000000:
  the two matching pools of the lower fee come first, in enumeration order.
\<close>

theorem findBestPoolForPair_sorted_stable_witness:
  "fst (findBestPoolForPair
          (sampleLedger textLess [poolB, poolA, poolForeign, poolA'] simulationOk executionOk)
          NATIVE_MINT USDT_MINT World0) = Inr [poolA, poolA', poolB] \<and>
   (\<exists>pools. fst (findBestPoolForPair
                   (sampleLedger textLess [poolB, poolA, poolForeign, poolA'] simulationOk executionOk)
                   NATIVE_MINT USDT_MINT World0) = Inr pools \<and>
      sorted (map fee pools) \<and>
      (\<forall>k. filter (\<lambda>p. fee p = k) pools =
           filter (\<lambda>p. fee p = k)
             (filter (relevant NATIVE_MINT USDT_MINT) [poolB, poolA, poolForeign, poolA'])))"
proof -
  have enum: "getAllPools
                (sampleLedger textLess [poolB, poolA, poolForeign, poolA'] simulationOk executionOk)
                (trace World0) = Inr [poolB, poolA, poolForeign, poolA']"
    by (simp add: sampleLedger_def)
  have "fst (findBestPoolForPair
               (sampleLedger textLess [poolB, poolA, poolForeign, poolA'] simulationOk executionOk)
               NATIVE_MINT USDT_MINT World0) = Inr [poolA, poolA', poolB]"
    by (simp add: findBestPoolForPair_def relevant_def sample_defs)
  with findBestPoolForPair_sorted_stable [OF enum, of NATIVE_MINT USDT_MINT]
  show ?thesis by simp
qed

section \<open>Request validation\<close>

text \<open>
  C6. A request to \<open>POST /api/swap\<close> whose amount is zero or negative, whose two tokens are
  the same, or whose slippage is below 0 or above 50 is answered with status 400, and the
  world is left as it was: no call of any kind has reached the network.
\<close>

theorem apiSwap_rejects_invalid_parameters:
  assumes "amt \<le> 0 \<or> fromTok = toTok \<or> (\<exists>s. slippageField = Some s \<and> (s < 0 \<or> 50 < s))"
  shows "\<exists>msg. apiSwap env fromTok toTok amt slippageField privateKey w = (StatusError 400 msg, w)"
  using assms by (auto simp: apiSwap_def Let_def)

text \<open>The four rejected requests of the specification: amount 0, amount -1, ETH to ETH, slippage 75.\<close>

theorem apiSwap_rejects_invalid_parameters_witness:
  "(\<exists>msg. apiSwap ledgerTwoPools ''ETH'' ''USDT'' 0 None ''key'' World0 = (StatusError 400 msg, World0)) \<and>
   (\<exists>msg. apiSwap ledgerTwoPools ''ETH'' ''USDT'' (- 1) None ''key'' World0 = (StatusError 400 msg, World0)) \<and>
   (\<exists>msg. apiSwap ledgerTwoPools ''ETH'' ''ETH'' 1 None ''key'' World0 = (StatusError 400 msg, World0)) \<and>
   (\<exists>msg. apiSwap ledgerTwoPools ''ETH'' ''USDT'' 1 (Some 75) ''key'' World0 = (StatusError 400 msg, World0))"
  using apiSwap_rejects_invalid_parameters [of 0 "''ETH''" "''USDT''" None ledgerTwoPools "''key''" World0]
        apiSwap_rejects_invalid_parameters [of "- 1" "''ETH''" "''USDT''" None ledgerTwoPools "''key''" World0]
        apiSwap_rejects_invalid_parameters [of 1 "''ETH''" "''ETH''" None ledgerTwoPools "''key''" World0]
        apiSwap_rejects_invalid_parameters [of 1 "''ETH''" "''USDT''" "Some 75" ledgerTwoPools "''key''" World0]
  by simp

section \<open>No pool for the pair\<close>

text \<open>
  C7. When the key decodes, the market builds, both symbols resolve, the amount converts and
  the ledger's enumeration holds no pool for the pair, \<open>performTokenSwap\<close> fails with the
  error \<open>No liquidity pools found for \<dots>\<close>, which is not the error of exhausted candidates,
  and the only events it adds are the market build and the enumeration: no account is looked
  up or created, nothing is simulated and nothing is executed.
\<close>

theorem performTokenSwap_no_pools:
  assumes "fromSecretKey env privateKey = Some kp"
      and "marketBuild env (trace w) = None"
      and "getTokenInfo fromTok = Inr fromInfo"
      and "getTokenInfo toTok = Inr toInfo"
      and "\<bar>amt\<bar> < 2 ^ 53"
      and "getAllPools env (trace w @ [MarketBuild]) = Inr allPools"
      and "filter (relevant (mint fromInfo) (mint toInfo)) allPools = []"
  shows "performTokenSwap env fromTok toTok amt sl privateKey w =
           (Inl (Error (''No liquidity pools found for '' @ fromTok @ ''/'' @ toTok @ '' pair'')),
            w\<lparr>trace := trace w @ [MarketBuild, GetAllPools]\<rparr>) \<and>
         ''No liquidity pools found for '' @ fromTok @ ''/'' @ toTok @ '' pair'' \<noteq>
           ''All available pools failed for this swap''"
  using assms
  by (simp add: performTokenSwap_def prepareSwap_def createKeypairFromPrivateKey_def
        initializeMarket_def BN_ofNumber_def findBestPoolForPair_def emit_def)

text \<open>One ETH to USDT on a ledger whose only pool is for another pair.\<close>

theorem performTokenSwap_no_pools_witness:
  "performTokenSwap ledgerNoMatch ''ETH'' ''USDT'' 1 (1 / 2) ''key'' World0 =
     (Inl (Error ''No liquidity pools found for ETH/USDT pair''),
      \<lparr>trace = [MarketBuild, GetAllPools], console = []\<rparr>)"
proof -
  have "fromSecretKey ledgerNoMatch ''key'' = Some ''wallet''"
    and "marketBuild ledgerNoMatch (trace World0) = None"
    and "getTokenInfo ''ETH'' = Inr \<lparr>mint = NATIVE_MINT, decimals = 9, tokenProgram = TOKEN_PROGRAM_ID\<rparr>"
    and "getTokenInfo ''USDT'' = Inr \<lparr>mint = USDT_MINT, decimals = 6, tokenProgram = TOKEN_2022_PROGRAM_ID\<rparr>"
    and "\<bar>1 :: rat\<bar> < 2 ^ 53"
    and "getAllPools ledgerNoMatch (trace World0 @ [MarketBuild]) = Inr [poolForeign]"
    and "filter (relevant (mint \<lparr>mint = NATIVE_MINT, decimals = 9, tokenProgram = TOKEN_PROGRAM_ID\<rparr>)
                          (mint \<lparr>mint = USDT_MINT, decimals = 6, tokenProgram = TOKEN_2022_PROGRAM_ID\<rparr>))
           [poolForeign] = []"
    by (simp_all add: ledgerNoMatch_def sample_defs getTokenInfo_def TOKEN_REGISTRY_def
          toUpperCase_def toUpperCaseChar_def relevant_def)
  from performTokenSwap_no_pools [OF this, of "1 / 2"]
  show ?thesis by (simp add: World0_def)
qed

section \<open>The loop over the candidates\<close>

text \<open>
  Every event that the loop body adds is issued for its pool, and so is every event of the
  whole loop for one of the pools it was given.
\<close>

lemma tryPool_trace:
  "\<exists>es. trace (snd (tryPool env c i pool w)) = trace w @ es \<and> list_all (issuedFor env c pool) es"
  by (auto simp: tryPool_def pairOfPool_canonical issuedFor_def Let_def executionArgs_def
           split: sum.splits Error.splits)

lemma tryPools_trace:
  "\<exists>es. trace (snd (tryPools env c i pools w)) = trace w @ es \<and>
        list_all (\<lambda>e. list_ex (\<lambda>pool. issuedFor env c pool e) pools) es"
proof (induction pools arbitrary: i w)
  case Nil
  then show ?case by simp
next
  case (Cons pool pools)
  obtain r w1 where step: "tryPool env c i pool w = (r, w1)"
    by (cases "tryPool env c i pool w")
  from tryPool_trace [of env c i pool w] step obtain es1 where
    es1: "trace w1 = trace w @ es1" "list_all (issuedFor env c pool) es1"
    by auto
  show ?case
  proof (cases r)
    case (Return result)
    with step es1 show ?thesis
      by (auto simp: list_all_iff)
  next
    case Continue
    from Cons.IH [of "i + 1" w1] obtain es2 where
      es2: "trace (snd (tryPools env c (i + 1) pools w1)) = trace w1 @ es2"
        "list_all (\<lambda>e. list_ex (\<lambda>pool. issuedFor env c pool e) pools) es2"
      by auto
    with Continue step es1 show ?thesis
      by (auto simp: list_all_iff)
  qed
qed

text \<open>What a successful run of the statements before the loop has established.\<close>

lemma initializeMarket_Inr:
  "initializeMarket env w = (Inr u, w1) \<Longrightarrow>
     marketBuild env (trace w) = None \<and> w1 = emit MarketBuild w"
  by (auto simp: initializeMarket_def split: option.splits)

lemma findBestPoolForPair_Inr:
  "findBestPoolForPair env tokenA tokenB w = (Inr pools, w1) \<Longrightarrow>
     (\<exists>allPools. getAllPools env (trace w) = Inr allPools \<and>
        pools = sort_key fee (filter (relevant tokenA tokenB) allPools)) \<and>
     w1 = emit GetAllPools w"
  by (auto simp: findBestPoolForPair_def split: sum.splits)

lemma createTokenAccountIfNeeded_world:
  "createTokenAccountIfNeeded env m k p w = (r, w1) \<Longrightarrow>
     console w1 = console w \<and>
     (\<exists>es. trace w1 = trace w @ es \<and> list_all (\<lambda>e. \<not> isSimulation e \<and> \<not> isExecution e) es)"
  by (auto simp: createTokenAccountIfNeeded_def Let_def isSimulation_def isExecution_def
           split: if_splits option.splits)

lemma prepareSwap_Inr:
  assumes "prepareSwap env fromTok toTok amt sl key w = (Inr (c, pools), w1)"
  shows "getTokenInfo fromTok = Inr (fromTokenInfo c)"
    and "getTokenInfo toTok = Inr (toTokenInfo c)"
    and "\<exists>a. BN_ofNumber amt = Inr a \<and> swapAmount c = a * 10 ^ decimals (fromTokenInfo c)"
    and "fromToken c = fromTok" and "toToken c = toTok" and "fromAmount c = amt"
    and "slippagePercent c = sl"
    and "fromSecretKey env key = Some (keypair c)"
    and "marketBuild env (trace w) = None"
    and "\<exists>allPools. getAllPools env (trace w @ [MarketBuild]) = Inr allPools \<and>
           pools = sort_key fee
             (filter (relevant (mint (fromTokenInfo c)) (mint (toTokenInfo c))) allPools)"
    and "pools \<noteq> []"
    and "console w1 = console w"
    and "\<exists>es. trace w1 = trace w @ es \<and> list_all (\<lambda>e. \<not> isSimulation e \<and> \<not> isExecution e) es"
proof -
  from assms obtain kp where kp: "createKeypairFromPrivateKey env key = Inr kp"
    by (auto simp: prepareSwap_def split: sum.splits)
  from assms kp obtain u wa where im: "initializeMarket env w = (Inr u, wa)"
    by (auto simp: prepareSwap_def split: sum.splits prod.splits)
  from assms kp im obtain fi where fi: "getTokenInfo fromTok = Inr fi"
    by (auto simp: prepareSwap_def split: sum.splits prod.splits)
  from assms kp im fi obtain ti where ti: "getTokenInfo toTok = Inr ti"
    by (auto simp: prepareSwap_def split: sum.splits prod.splits)
  from assms kp im fi ti obtain a where a: "BN_ofNumber amt = Inr a"
    by (auto simp: prepareSwap_def split: sum.splits prod.splits)
  from assms kp im fi ti a obtain wb where
    fb: "findBestPoolForPair env (mint fi) (mint ti) wa = (Inr pools, wb)" and ne: "pools \<noteq> []"
    by (auto simp: prepareSwap_def split: sum.splits prod.splits if_splits)
  from assms kp im fi ti a fb ne obtain x wc where
    c1: "createTokenAccountIfNeeded env (mint fi) kp (tokenProgram fi) wb = (Inr x, wc)"
    by (auto simp: prepareSwap_def split: sum.splits prod.splits if_splits)
  from assms kp im fi ti a fb ne c1 obtain y where
    c2: "createTokenAccountIfNeeded env (mint ti) kp (tokenProgram ti) wc = (Inr y, w1)"
    and c: "c = \<lparr>fromToken = fromTok, toToken = toTok, fromAmount = amt,
                 fromTokenInfo = fi, toTokenInfo = ti,
                 swapAmount = a * 10 ^ decimals fi,
                 slippagePercent = sl, keypair = kp\<rparr>"
    by (auto simp: prepareSwap_def split: sum.splits prod.splits if_splits)
  note w_a = initializeMarket_Inr [OF im]
  note w_b = findBestPoolForPair_Inr [OF fb]
  note w_c = createTokenAccountIfNeeded_world [OF c1]
  note w_d = createTokenAccountIfNeeded_world [OF c2]
  show "getTokenInfo fromTok = Inr (fromTokenInfo c)" using fi c by simp
  show "getTokenInfo toTok = Inr (toTokenInfo c)" using ti c by simp
  show "\<exists>a. BN_ofNumber amt = Inr a \<and> swapAmount c = a * 10 ^ decimals (fromTokenInfo c)"
    using a c by simp
  show "fromToken c = fromTok" "toToken c = toTok" "fromAmount c = amt" "slippagePercent c = sl"
    using c by simp_all
  show "fromSecretKey env key = Some (keypair c)"
    using kp c by (auto simp: createKeypairFromPrivateKey_def split: option.splits)
  show "marketBuild env (trace w) = None" using w_a by simp
  show "\<exists>allPools. getAllPools env (trace w @ [MarketBuild]) = Inr allPools \<and>
           pools = sort_key fee
             (filter (relevant (mint (fromTokenInfo c)) (mint (toTokenInfo c))) allPools)"
    using w_a w_b c by auto
  show "pools \<noteq> []" by (rule ne)
  show "console w1 = console w" using w_a w_b w_c w_d by simp
  show "\<exists>es. trace w1 = trace w @ es \<and> list_all (\<lambda>e. \<not> isSimulation e \<and> \<not> isExecution e) es"
    using w_a w_b w_c w_d by (auto simp: isSimulation_def isExecution_def)
qed

lemma performTokenSwap_loop:
  assumes "prepareSwap env fromTok toTok amt sl key w = (Inr (c, pools), w1)"
  shows "snd (performTokenSwap env fromTok toTok amt sl key w) = snd (tryPools env c 0 pools w1)"
  using assms by (simp add: performTokenSwap_def split: prod.splits option.splits)

text \<open>The statements before the loop in the scenarios.\<close>

lemma prep_two: "prepareSwap ledgerTwoPools ''ETH'' ''USDT'' 1 (1 / 2) ''key'' World0 =
   (Inr (sampleLocals, [poolA, poolB]),
    \<lparr>trace = [MarketBuild, GetAllPools, GetAccount ''ata-So11'', GetAccount ''ata-CEBP''],
     console = []\<rparr>)"
  by (simp add: ledgerTwoPools_def sample_defs server_defs sampleLocals_def Let_def)


lemma prep_three: "prepareSwap ledgerThreePools ''ETH'' ''USDT'' 1 (1 / 2) ''key'' World0 =
   (Inr (sampleLocals, [poolA, poolB, poolC]),
    \<lparr>trace = [MarketBuild, GetAllPools, GetAccount ''ata-So11'', GetAccount ''ata-CEBP''],
     console = []\<rparr>)"
  by (simp add: ledgerThreePools_def sample_defs server_defs sampleLocals_def Let_def)

lemma prep_sim: "prepareSwap ledgerSimulationsFail ''ETH'' ''USDT'' 1 (1 / 2) ''key'' World0 =
   (Inr (sampleLocals, [poolA, poolB]),
    \<lparr>trace = [MarketBuild, GetAllPools, GetAccount ''ata-So11'', GetAccount ''ata-CEBP''],
     console = []\<rparr>)"
  by (simp add: ledgerSimulationsFail_def sample_defs server_defs sampleLocals_def Let_def)

lemma prep_exec: "prepareSwap ledgerExecutionsFail ''ETH'' ''USDT'' 1 (1 / 2) ''key'' World0 =
   (Inr (sampleLocals, [poolA, poolB]),
    \<lparr>trace = [MarketBuild, GetAllPools, GetAccount ''ata-So11'', GetAccount ''ata-CEBP''],
     console = []\<rparr>)"
  by (simp add: ledgerExecutionsFail_def sample_defs server_defs sampleLocals_def Let_def)

text \<open>
  The loop body returns exactly when the pool has two distinct tokens, the slippage converts,
  the ledger answers the simulation with status \<open>Ok\<close>, the execution returns a transaction
  hash, and the fee fits 53 bits. It then reports the address of the canonical pair of the
  pool and the fee of the pool, and has added the simulation and the execution, nothing else.
\<close>

lemma tryPool_succeeds:
  assumes "tokenX pool \<noteq> tokenY pool"
      and "toDecimal env (slippagePercent c) 2 = Inr d"
      and "swapSimulation env (trace w)
             (simulationArgs env (mint (fromTokenInfo c)) (swapAmount c) d (canonicalPair env pool)) =
             Inr simulation"
      and "status simulation = Ok"
      and "swap env
             (trace w @ [SwapSimulation
                (simulationArgs env (mint (fromTokenInfo c)) (swapAmount c) d (canonicalPair env pool))])
             (executionArgs env c d (canonicalPair env pool) (priceAfterSwap simulation)) = Inr txHash"
      and "\<bar>fee pool\<bar> < 2 ^ 53"
  shows "tryPool env c i pool w =
           (Return (successResult env c pool (canonicalPair env pool) simulation txHash),
            w\<lparr>trace := trace w @
                 [SwapSimulation
                    (simulationArgs env (mint (fromTokenInfo c)) (swapAmount c) d
                       (canonicalPair env pool)),
                  MarketSwap
                    (executionArgs env c d (canonicalPair env pool) (priceAfterSwap simulation))]\<rparr>)"
  using assms
  by (simp add: tryPool_def pairOfPool_canonical Let_def BN_toNumber_def emit_def)

lemma tryPool_Return:
  assumes "tryPool env c i pool w = (Return result, w1)"
  shows "\<exists>d simulation txHash.
           tokenX pool \<noteq> tokenY pool \<and>
           toDecimal env (slippagePercent c) 2 = Inr d \<and>
           swapSimulation env (trace w)
             (simulationArgs env (mint (fromTokenInfo c)) (swapAmount c) d (canonicalPair env pool)) =
             Inr simulation \<and>
           status simulation = Ok \<and>
           swap env (trace w @ [SwapSimulation
               (simulationArgs env (mint (fromTokenInfo c)) (swapAmount c) d (canonicalPair env pool))])
             (executionArgs env c d (canonicalPair env pool) (priceAfterSwap simulation)) = Inr txHash \<and>
           \<bar>fee pool\<bar> < 2 ^ 53 \<and>
           transactionHash result = txHash \<and>
           poolUsed result = (getAddress env (canonicalPair env pool), fee pool) \<and>
           trace w1 = trace w @
             [SwapSimulation
                (simulationArgs env (mint (fromTokenInfo c)) (swapAmount c) d (canonicalPair env pool)),
              MarketSwap (executionArgs env c d (canonicalPair env pool) (priceAfterSwap simulation))] \<and>
           console w1 = console w"
  using assms
  by (auto simp: tryPool_def pairOfPool_canonical Let_def successResult_def BN_toNumber_def
           split: sum.splits Error.splits if_splits)

text \<open>A candidate that succeeds ends the loop, whatever follows it in the list.\<close>

lemma tryPools_first_success:
  assumes "tryPools env c i earlier w = (None, w0)"
      and "tryPool env c (i + length earlier) pool w0 = (Return result, w1)"
  shows "tryPools env c i (earlier @ pool # later) w = (Some result, w1)"
  using assms
proof (induction earlier arbitrary: i w)
  case Nil
  then show ?case by simp
next
  case (Cons p ps)
  obtain r wa where step: "tryPool env c i p w = (r, wa)"
    by (cases "tryPool env c i p w")
  with Cons.prems(1) have r: "r = Continue" and rest: "tryPools env c (i + 1) ps wa = (None, w0)"
    by (auto split: Step.splits)
  from Cons.prems(2) have "tryPool env c (i + 1 + length ps) pool w0 = (Return result, w1)"
    by (simp add: add.assoc add.commute)
  from Cons.IH [OF rest this] step r show ?case
    by simp
qed

lemma tryPools_Some:
  assumes "tryPools env c i pools w = (Some result, w1)"
  shows "\<exists>earlier pool later w0.
           pools = earlier @ pool # later \<and>
           tryPools env c i earlier w = (None, w0) \<and>
           tryPool env c (i + length earlier) pool w0 = (Return result, w1)"
  using assms
proof (induction pools arbitrary: i w)
  case Nil
  then show ?case by simp
next
  case (Cons p ps)
  obtain r wa where step: "tryPool env c i p w = (r, wa)"
    by (cases "tryPool env c i p w")
  show ?case
  proof (cases r)
    case (Return res)
    with Cons.prems step have "res = result" "wa = w1" by simp_all
    with Return step show ?thesis
      by (intro exI [of _ "[]"] exI [of _ p] exI [of _ ps] exI [of _ w]) simp
  next
    case Continue
    with Cons.prems step have "tryPools env c (i + 1) ps wa = (Some result, w1)"
      by simp
    from Cons.IH [OF this] obtain earlier pool later w0 where
      ih: "ps = earlier @ pool # later" "tryPools env c (i + 1) earlier wa = (None, w0)"
          "tryPool env c (i + 1 + length earlier) pool w0 = (Return result, w1)"
      by blast
    with Continue step show ?thesis
      by (intro exI [of _ "p # earlier"] exI [of _ pool] exI [of _ later] exI [of _ w0])
         (simp add: add.assoc add.commute)
  qed
qed

section \<open>Direction of the trade\<close>













section \<open>Price bound of an execution\<close>

text \<open>
  In \<open>performTokenSwap\<close> every execution follows a simulation of the same pool that the
  ledger answered with status \<open>Ok\<close> in the same request, and its price bound is the
  \<open>priceAfterSwap\<close> of that answer.
\<close>

lemma coupled_append:
  "coupled env h (xs @ ys) = (coupled env h xs \<and> coupled env (h @ xs) ys)"
  by (induction env h xs rule: coupled.induct) simp_all

lemma tryPool_coupled:
  "\<exists>es. trace (snd (tryPool env c i pool w)) = trace w @ es \<and> coupled env (trace w) es"
  by (auto simp: tryPool_def Let_def simulationArgs_def executionArgs_def
           split: sum.splits Error.splits)

lemma tryPools_coupled:
  "\<exists>es. trace (snd (tryPools env c i pools w)) = trace w @ es \<and> coupled env (trace w) es"
proof (induction pools arbitrary: i w)
  case Nil
  then show ?case by simp
next
  case (Cons pool pools)
  obtain r w1 where step: "tryPool env c i pool w = (r, w1)"
    by (cases "tryPool env c i pool w")
  from tryPool_coupled [of env c i pool w] step obtain es1 where
    es1: "trace w1 = trace w @ es1" "coupled env (trace w) es1"
    by auto
  show ?case
  proof (cases r)
    case (Return result)
    with step es1 show ?thesis by auto
  next
    case Continue
    from Cons.IH [of "i + 1" w1] obtain es2 where
      es2: "trace (snd (tryPools env c (i + 1) pools w1)) = trace w1 @ es2"
           "coupled env (trace w1) es2"
      by auto
    with Continue step es1 show ?thesis
      by (intro exI [of _ "es1 @ es2"]) (simp add: coupled_append)
  qed
qed

lemma performTokenSwap_coupled:
  assumes "prepareSwap env fromTok toTok amt sl key w = (Inr (c, pools), w1)"
  shows "\<exists>es. trace (snd (performTokenSwap env fromTok toTok amt sl key w)) = trace w1 @ es \<and>
           coupled env (trace w1) es"
  using tryPools_coupled [of env c 0 pools w1] performTokenSwap_loop [OF assms] by simp

text \<open>\<open>swapSolToUsdt\<close> never simulates, and what it executes has the price bound 1.\<close>

lemma swapSolToUsdt_never_simulates:
  "\<exists>es. trace (snd (swapSolToUsdt env wallet w)) = trace w @ es \<and>
        simulatedDirections es = [] \<and>
        (executedPrices es = [] \<or> executedPrices es = [1]) \<and>
        (executedDirections es = [] \<or> map fst (executedDirections es) = [True])"
  by (auto simp: swapSolToUsdt_def ensureTokenAccounts_def Let_def
           split: option.splits sum.splits prod.splits if_splits)

text \<open>
  C2. \<open>swapSolToUsdt\<close> and \<open>performDocumentationStyleSwap\<close> execute without any simulation
  and pass the constant 1 as \<open>estimatedPriceAfterSwap\<close>, on a ledger whose simulation would
  have predicted 42.
\<close>

theorem swapSolToUsdt_placeholder_price:
  "fst (swapSolToUsdt ledgerText ''wallet'' World0) = Inr ''tx-hash'' \<and>
   map isSimulation (trace (snd (swapSolToUsdt ledgerText ''wallet'' World0))) =
     [False, False, False, False] \<and>
   executedPrices (trace (snd (swapSolToUsdt ledgerText ''wallet'' World0))) = [1] \<and>
   map isSimulation (trace (snd (performDocumentationStyleSwap ledgerText ''wallet'' World0))) =
     [False, False, False] \<and>
   executedPrices (trace (snd (performDocumentationStyleSwap ledgerText ''wallet'' World0))) = [1]"
  by (simp add: ledgerText_def sample_defs script_defs Let_def isSimulation_def)

section \<open>First success\<close>

text \<open>
  C4. When the loop is reached with the candidates \<open>earlier @ pool # later\<close>, the candidates
  of \<open>earlier\<close> have all failed, and \<open>pool\<close>, whose fee fits 53 bits, has two distinct
  tokens, is simulated with status \<open>Ok\<close> and is executed with the transaction
  hash \<open>txHash\<close>, then \<open>performTokenSwap\<close> returns success with that hash and with the
  address of the canonical pair of \<open>pool\<close> and the fee of \<open>pool\<close> as \<open>poolUsed\<close>. The
  world it leaves is the one after the candidates of \<open>earlier\<close> with that simulation and that
  execution added: nothing is issued and nothing is logged for a candidate of \<open>later\<close>.
\<close>

theorem performTokenSwap_first_success:
  assumes "prepareSwap env fromTok toTok amt sl key w = (Inr (c, earlier @ pool # later), w1)"
      and "tryPools env c 0 earlier w1 = (None, w0)"
      and "tokenX pool \<noteq> tokenY pool"
      and "toDecimal env sl 2 = Inr d"
      and "swapSimulation env (trace w0)
             (simulationArgs env (mint (fromTokenInfo c)) (swapAmount c) d (canonicalPair env pool)) =
             Inr simulation"
      and "status simulation = Ok"
      and "swap env
             (trace w0 @ [SwapSimulation
                (simulationArgs env (mint (fromTokenInfo c)) (swapAmount c) d (canonicalPair env pool))])
             (executionArgs env c d (canonicalPair env pool) (priceAfterSwap simulation)) = Inr txHash"
      and "\<bar>fee pool\<bar> < 2 ^ 53"
  shows "\<exists>result.
           performTokenSwap env fromTok toTok amt sl key w =
             (Inr result,
              w0\<lparr>trace := trace w0 @
                  [SwapSimulation
                     (simulationArgs env (mint (fromTokenInfo c)) (swapAmount c) d
                        (canonicalPair env pool)),
                   MarketSwap
                     (executionArgs env c d (canonicalPair env pool) (priceAfterSwap simulation))]\<rparr>) \<and>
           transactionHash result = txHash \<and>
           poolUsed result = (getAddress env (canonicalPair env pool), fee pool)"
proof -
  from prepareSwap_Inr(7) [OF assms(1)] assms(4)
  have slippage: "toDecimal env (slippagePercent c) 2 = Inr d"
    by simp
  from tryPool_succeeds [OF assms(3) slippage assms(5-8), of "0 + length earlier"]
       tryPools_first_success [OF assms(2), of pool _ _ later]
  have "tryPools env c 0 (earlier @ pool # later) w1 =
          (Some (successResult env c pool (canonicalPair env pool) simulation txHash),
           w0\<lparr>trace := trace w0 @
               [SwapSimulation
                  (simulationArgs env (mint (fromTokenInfo c)) (swapAmount c) d
                     (canonicalPair env pool)),
                MarketSwap
                  (executionArgs env c d (canonicalPair env pool) (priceAfterSwap simulation))]\<rparr>)"
    by simp
  with assms(1) show ?thesis
    by (simp add: performTokenSwap_def successResult_def)
qed

text \<open>
  The scenario of the specification, candidates at fees 100000000 and 500000000 of which the
  first is simulated with a non-success status: the pool used is the second one. With a third
  candidate at fee 900000000 the outcome and the events are the same: the third candidate is
  not touched.
\<close>

theorem performTokenSwap_first_success_witness:
  "(\<exists>result.
      performTokenSwap ledgerTwoPools ''ETH'' ''USDT'' 1 (1 / 2) ''key'' World0 =
        (Inr result,
         \<lparr>trace = [MarketBuild, GetAllPools, GetAccount ''ata-So11'', GetAccount ''ata-CEBP'',
                   SwapSimulation
                     (simulationArgs ledgerTwoPools NATIVE_MINT 1000000000 5000000000
                        \<lparr>tokenX = USDT_MINT, tokenY = NATIVE_MINT, feeTier = (100000000, 1)\<rparr>),
                   SwapSimulation
                     (simulationArgs ledgerTwoPools NATIVE_MINT 1000000000 5000000000
                        \<lparr>tokenX = USDT_MINT, tokenY = NATIVE_MINT, feeTier = (500000000, 10)\<rparr>),
                   MarketSwap
                     (executionArgs ledgerTwoPools sampleLocals 5000000000
                        \<lparr>tokenX = USDT_MINT, tokenY = NATIVE_MINT, feeTier = (500000000, 10)\<rparr> 42)],
          console = [PoolSimulationFailed 1 (NotOk ''Too large liquidity gap'')]\<rparr>) \<and>
      transactionHash result = ''tx-hash'' \<and>
      poolUsed result = (''pool-B'', 500000000)) \<and>
   (\<exists>result.
      performTokenSwap ledgerThreePools ''ETH'' ''USDT'' 1 (1 / 2) ''key'' World0 =
        (Inr result,
         \<lparr>trace = [MarketBuild, GetAllPools, GetAccount ''ata-So11'', GetAccount ''ata-CEBP'',
                   SwapSimulation
                     (simulationArgs ledgerThreePools NATIVE_MINT 1000000000 5000000000
                        \<lparr>tokenX = USDT_MINT, tokenY = NATIVE_MINT, feeTier = (100000000, 1)\<rparr>),
                   SwapSimulation
                     (simulationArgs ledgerThreePools NATIVE_MINT 1000000000 5000000000
                        \<lparr>tokenX = USDT_MINT, tokenY = NATIVE_MINT, feeTier = (500000000, 10)\<rparr>),
                   MarketSwap
                     (executionArgs ledgerThreePools sampleLocals 5000000000
                        \<lparr>tokenX = USDT_MINT, tokenY = NATIVE_MINT, feeTier = (500000000, 10)\<rparr> 42)],
          console = [PoolSimulationFailed 1 (NotOk ''Too large liquidity gap'')]\<rparr>) \<and>
      transactionHash result = ''tx-hash'' \<and>
      poolUsed result = (''pool-B'', 500000000))"
proof -
  let ?w1 = "\<lparr>trace = [MarketBuild, GetAllPools, GetAccount ''ata-So11'', GetAccount ''ata-CEBP''],
              console = []\<rparr>"
  let ?simulation = "\<lparr>status = Ok, priceAfterSwap = 42, accumulatedAmountOut = Some 2500000,
                      priceImpact = None\<rparr>"
  have two: "\<exists>result.
      performTokenSwap ledgerTwoPools ''ETH'' ''USDT'' 1 (1 / 2) ''key'' World0 =
        (Inr result,
         \<lparr>trace = [MarketBuild, GetAllPools, GetAccount ''ata-So11'', GetAccount ''ata-CEBP'',
                   SwapSimulation
                     (simulationArgs ledgerTwoPools NATIVE_MINT 1000000000 5000000000
                        \<lparr>tokenX = USDT_MINT, tokenY = NATIVE_MINT, feeTier = (100000000, 1)\<rparr>),
                   SwapSimulation
                     (simulationArgs ledgerTwoPools NATIVE_MINT 1000000000 5000000000
                        \<lparr>tokenX = USDT_MINT, tokenY = NATIVE_MINT, feeTier = (500000000, 10)\<rparr>),
                   MarketSwap
                     (executionArgs ledgerTwoPools sampleLocals 5000000000
                        \<lparr>tokenX = USDT_MINT, tokenY = NATIVE_MINT, feeTier = (500000000, 10)\<rparr> 42)],
          console = [PoolSimulationFailed 1 (NotOk ''Too large liquidity gap'')]\<rparr>) \<and>
      transactionHash result = ''tx-hash'' \<and>
      poolUsed result = (''pool-B'', 500000000)"
  proof -
    let ?w0 = "\<lparr>trace = [MarketBuild, GetAllPools, GetAccount ''ata-So11'', GetAccount ''ata-CEBP'',
                         SwapSimulation
                           (simulationArgs ledgerTwoPools NATIVE_MINT 1000000000 5000000000
                              \<lparr>tokenX = USDT_MINT, tokenY = NATIVE_MINT, feeTier = (100000000, 1)\<rparr>)],
                console = [PoolSimulationFailed 1 (NotOk ''Too large liquidity gap'')]\<rparr>"
    have pair: "canonicalPair ledgerTwoPools poolB =
                  \<lparr>tokenX = USDT_MINT, tokenY = NATIVE_MINT, feeTier = (500000000, 10)\<rparr>"
      by (simp add: canonicalPair_def canonicalOrder_def ledgerTwoPools_def sample_defs)
    have "prepareSwap ledgerTwoPools ''ETH'' ''USDT'' 1 (1 / 2) ''key'' World0 =
            (Inr (sampleLocals, [poolA] @ poolB # []), ?w1)"
      using prep_two by simp
    moreover have "tryPools ledgerTwoPools sampleLocals 0 [poolA] ?w1 = (None, ?w0)"
      by (simp add: ledgerTwoPools_def sample_defs server_defs sampleLocals_def Let_def)
    moreover have "tokenX poolB \<noteq> tokenY poolB"
      by (simp add: sample_defs)
    moreover have "toDecimal ledgerTwoPools (1 / 2) 2 = Inr 5000000000"
      by (simp add: ledgerTwoPools_def sample_defs)
    moreover have "swapSimulation ledgerTwoPools (trace ?w0)
             (simulationArgs ledgerTwoPools (mint (fromTokenInfo sampleLocals))
                (swapAmount sampleLocals) 5000000000 (canonicalPair ledgerTwoPools poolB)) =
             Inr ?simulation"
      by (simp add: pair) (simp add: ledgerTwoPools_def sample_defs simulationArgs_def)
    moreover have "status ?simulation = Ok"
      by simp
    moreover have "swap ledgerTwoPools
             (trace ?w0 @ [SwapSimulation
                (simulationArgs ledgerTwoPools (mint (fromTokenInfo sampleLocals))
                   (swapAmount sampleLocals) 5000000000 (canonicalPair ledgerTwoPools poolB))])
             (executionArgs ledgerTwoPools sampleLocals 5000000000
                (canonicalPair ledgerTwoPools poolB) (priceAfterSwap ?simulation)) = Inr ''tx-hash''"
      by (simp add: ledgerTwoPools_def sample_defs)
    moreover have "\<bar>fee poolB\<bar> < 2 ^ 53"
      by (simp add: sample_defs)
    ultimately have "\<exists>result.
           performTokenSwap ledgerTwoPools ''ETH'' ''USDT'' 1 (1 / 2) ''key'' World0 =
             (Inr result,
              ?w0\<lparr>trace := trace ?w0 @
                  [SwapSimulation
                     (simulationArgs ledgerTwoPools (mint (fromTokenInfo sampleLocals))
                        (swapAmount sampleLocals) 5000000000 (canonicalPair ledgerTwoPools poolB)),
                   MarketSwap
                     (executionArgs ledgerTwoPools sampleLocals 5000000000
                        (canonicalPair ledgerTwoPools poolB) (priceAfterSwap ?simulation))]\<rparr>) \<and>
           transactionHash result = ''tx-hash'' \<and>
           poolUsed result = (getAddress ledgerTwoPools (canonicalPair ledgerTwoPools poolB), fee poolB)"
      by (rule performTokenSwap_first_success)
    moreover have "getAddress ledgerTwoPools (canonicalPair ledgerTwoPools poolB) = ''pool-B''"
      and "fee poolB = 500000000"
      by (simp_all add: pair) (simp_all add: ledgerTwoPools_def sample_defs)
    ultimately show ?thesis
      by (simp add: pair sampleLocals_def)
  qed
  have three: "\<exists>result.
      performTokenSwap ledgerThreePools ''ETH'' ''USDT'' 1 (1 / 2) ''key'' World0 =
        (Inr result,
         \<lparr>trace = [MarketBuild, GetAllPools, GetAccount ''ata-So11'', GetAccount ''ata-CEBP'',
                   SwapSimulation
                     (simulationArgs ledgerThreePools NATIVE_MINT 1000000000 5000000000
                        \<lparr>tokenX = USDT_MINT, tokenY = NATIVE_MINT, feeTier = (100000000, 1)\<rparr>),
                   SwapSimulation
                     (simulationArgs ledgerThreePools NATIVE_MINT 1000000000 5000000000
                        \<lparr>tokenX = USDT_MINT, tokenY = NATIVE_MINT, feeTier = (500000000, 10)\<rparr>),
                   MarketSwap
                     (executionArgs ledgerThreePools sampleLocals 5000000000
                        \<lparr>tokenX = USDT_MINT, tokenY = NATIVE_MINT, feeTier = (500000000, 10)\<rparr> 42)],
          console = [PoolSimulationFailed 1 (NotOk ''Too large liquidity gap'')]\<rparr>) \<and>
      transactionHash result = ''tx-hash'' \<and>
      poolUsed result = (''pool-B'', 500000000)"
  proof -
    let ?w0 = "\<lparr>trace = [MarketBuild, GetAllPools, GetAccount ''ata-So11'', GetAccount ''ata-CEBP'',
                         SwapSimulation
                           (simulationArgs ledgerThreePools NATIVE_MINT 1000000000 5000000000
                              \<lparr>tokenX = USDT_MINT, tokenY = NATIVE_MINT, feeTier = (100000000, 1)\<rparr>)],
                console = [PoolSimulationFailed 1 (NotOk ''Too large liquidity gap'')]\<rparr>"
    have pair: "canonicalPair ledgerThreePools poolB =
                  \<lparr>tokenX = USDT_MINT, tokenY = NATIVE_MINT, feeTier = (500000000, 10)\<rparr>"
      by (simp add: canonicalPair_def canonicalOrder_def ledgerThreePools_def sample_defs)
    have "prepareSwap ledgerThreePools ''ETH'' ''USDT'' 1 (1 / 2) ''key'' World0 =
            (Inr (sampleLocals, [poolA] @ poolB # [poolC]), ?w1)"
      using prep_three by simp
    moreover have "tryPools ledgerThreePools sampleLocals 0 [poolA] ?w1 = (None, ?w0)"
      by (simp add: ledgerThreePools_def sample_defs server_defs sampleLocals_def Let_def)
    moreover have "tokenX poolB \<noteq> tokenY poolB"
      by (simp add: sample_defs)
    moreover have "toDecimal ledgerThreePools (1 / 2) 2 = Inr 5000000000"
      by (simp add: ledgerThreePools_def sample_defs)
    moreover have "swapSimulation ledgerThreePools (trace ?w0)
             (simulationArgs ledgerThreePools (mint (fromTokenInfo sampleLocals))
                (swapAmount sampleLocals) 5000000000 (canonicalPair ledgerThreePools poolB)) =
             Inr ?simulation"
      by (simp add: pair) (simp add: ledgerThreePools_def sample_defs simulationArgs_def)
    moreover have "status ?simulation = Ok"
      by simp
    moreover have "swap ledgerThreePools
             (trace ?w0 @ [SwapSimulation
                (simulationArgs ledgerThreePools (mint (fromTokenInfo sampleLocals))
                   (swapAmount sampleLocals) 5000000000 (canonicalPair ledgerThreePools poolB))])
             (executionArgs ledgerThreePools sampleLocals 5000000000
                (canonicalPair ledgerThreePools poolB) (priceAfterSwap ?simulation)) = Inr ''tx-hash''"
      by (simp add: ledgerThreePools_def sample_defs)
    moreover have "\<bar>fee poolB\<bar> < 2 ^ 53"
      by (simp add: sample_defs)
    ultimately have "\<exists>result.
           performTokenSwap ledgerThreePools ''ETH'' ''USDT'' 1 (1 / 2) ''key'' World0 =
             (Inr result,
              ?w0\<lparr>trace := trace ?w0 @
                  [SwapSimulation
                     (simulationArgs ledgerThreePools (mint (fromTokenInfo sampleLocals))
                        (swapAmount sampleLocals) 5000000000 (canonicalPair ledgerThreePools poolB)),
                   MarketSwap
                     (executionArgs ledgerThreePools sampleLocals 5000000000
                        (canonicalPair ledgerThreePools poolB) (priceAfterSwap ?simulation))]\<rparr>) \<and>
           transactionHash result = ''tx-hash'' \<and>
           poolUsed result =
             (getAddress ledgerThreePools (canonicalPair ledgerThreePools poolB), fee poolB)"
      by (rule performTokenSwap_first_success)
    moreover have "getAddress ledgerThreePools (canonicalPair ledgerThreePools poolB) = ''pool-B''"
      and "fee poolB = 500000000"
      by (simp_all add: pair) (simp_all add: ledgerThreePools_def sample_defs)
    ultimately show ?thesis
      by (simp add: pair sampleLocals_def)
  qed
  from two three show ?thesis
    by (rule conjI)
qed

text \<open>
  Conversely, whenever \<open>performTokenSwap\<close> returns a success object, the candidates before
  the reported one have all failed, the reported pool is the one whose execution is the last
  event, and its transaction hash is the one that execution returned.
\<close>

lemma performTokenSwap_success:
  assumes "prepareSwap env fromTok toTok amt sl key w = (Inr (c, pools), w1)"
      and "performTokenSwap env fromTok toTok amt sl key w = (Inr result, w2)"
  shows "\<exists>earlier pool later w0 d price.
           pools = earlier @ pool # later \<and>
           tryPools env c 0 earlier w1 = (None, w0) \<and>
           tokenX pool \<noteq> tokenY pool \<and>
           poolUsed result = (getAddress env (canonicalPair env pool), fee pool) \<and>
           swap env (butlast (trace w2)) (executionArgs env c d (canonicalPair env pool) price) =
             Inr (transactionHash result) \<and>
           last (trace w2) = MarketSwap (executionArgs env c d (canonicalPair env pool) price)"
proof -
  from assms have "tryPools env c 0 pools w1 = (Some result, w2)"
    by (auto simp: performTokenSwap_def split: prod.splits option.splits)
  from tryPools_Some [OF this] obtain earlier pool later w0 where
    split: "pools = earlier @ pool # later" "tryPools env c 0 earlier w1 = (None, w0)"
           "tryPool env c (0 + length earlier) pool w0 = (Return result, w2)"
    by blast
  from tryPool_Return [OF split(3)] obtain d price where
    "tokenX pool \<noteq> tokenY pool"
    "poolUsed result = (getAddress env (canonicalPair env pool), fee pool)"
    "swap env (trace w0 @ [SwapSimulation
        (simulationArgs env (mint (fromTokenInfo c)) (swapAmount c) d (canonicalPair env pool))])
       (executionArgs env c d (canonicalPair env pool) price) = Inr (transactionHash result)"
    "trace w2 = trace w0 @
       [SwapSimulation
          (simulationArgs env (mint (fromTokenInfo c)) (swapAmount c) d (canonicalPair env pool)),
        MarketSwap (executionArgs env c d (canonicalPair env pool) price)]"
    by blast
  then have "tokenX pool \<noteq> tokenY pool"
    and "poolUsed result = (getAddress env (canonicalPair env pool), fee pool)"
    and "swap env (butlast (trace w2)) (executionArgs env c d (canonicalPair env pool) price) =
           Inr (transactionHash result)"
    and "last (trace w2) = MarketSwap (executionArgs env c d (canonicalPair env pool) price)"
    by (simp_all add: butlast_append)
  with split(1,2) show ?thesis
    by blast
qed

text \<open>
  The route \<open>POST /api/swap\<close> in the scenario of the specification answers with the second
  pool.
\<close>

lemma second_candidate_used:
  "fst (apiSwap ledgerTwoPools ''ETH'' ''USDT'' 1 None ''key'' World0) =
     Json \<lparr>fromToken = ''ETH'', toToken = ''USDT'', fromAmount = 1,
           transactionHash = ''tx-hash'', estimatedToAmount = Some 2,
           poolUsed = (''pool-B'', 500000000)\<rparr> \<and>
   console (snd (apiSwap ledgerTwoPools ''ETH'' ''USDT'' 1 None ''key'' World0)) =
     [PoolSimulationFailed 1 (NotOk ''Too large liquidity gap'')]"
  by (simp add: ledgerTwoPools_def sample_defs server_defs Let_def)

text \<open>
  The bound on the fee is needed. The success object is built inside \<open>try\<close>, after the
  execution has returned, and evaluates the \<open>toNumber()\<close> of the fee: for a fee of \<open>2^53\<close> or
  more it throws, and \<open>catch\<close> goes on with the next pool.
\<close>

lemma performTokenSwap_fee_beyond_53_bits:
  "fst (performTokenSwap ledgerHugeFees ''ETH'' ''USDT'' 1 (1 / 2) ''key'' World0) =
     Inl (Error ''All available pools failed for this swap'') \<and>
   map isExecution (trace (snd (performTokenSwap ledgerHugeFees ''ETH'' ''USDT'' 1 (1 / 2) ''key'' World0))) =
     [False, False, False, False, False, True, False, True] \<and>
   console (snd (performTokenSwap ledgerHugeFees ''ETH'' ''USDT'' 1 (1 / 2) ''key'' World0)) =
     [PoolFailed 1 ''Number can only safely store up to 53 bits'',
      PoolFailed 2 ''Number can only safely store up to 53 bits'']"
  by (simp add: ledgerHugeFees_def sample_defs server_defs Let_def isExecution_def)

section \<open>Exhausted candidates\<close>

text \<open>
  A candidate that does not succeed leaves exactly one line on the console, the one that
  tells its reason, with its number.
\<close>

lemma tryPool_console_Continue:
  "tryPool env c i pool w = (Continue, w1) \<Longrightarrow>
     \<exists>l. console w1 = console w @ [l] \<and> failureLine env c (i + 1) pool (trace w) = Some l"
  by (auto simp: tryPool_def failureLine_def pairOfPool_canonical Let_def BN_toNumber_def
           split: sum.splits Error.splits if_splits)

lemma failureLine_number:
  "failureLine env c n pool h = Some l \<Longrightarrow> poolNumber l = Some n"
  by (auto simp: failureLine_def poolNumber_def split: sum.splits if_splits)

lemma tryPools_console_None:
  "tryPools env c i pools w = (None, w1) \<Longrightarrow>
     \<exists>ls. console w1 = console w @ ls \<and>
          map Some ls =
            map (\<lambda>j. failureLine env c (i + j + 1) (pools ! j)
                       (trace (snd (tryPools env c i (take j pools) w))))
              [0 ..< length pools]"
proof (induction pools arbitrary: i w)
  case Nil
  then show ?case by simp
next
  case (Cons pool pools)
  obtain r w0 where step: "tryPool env c i pool w = (r, w0)"
    by (cases "tryPool env c i pool w")
  with Cons.prems have r: "r = Continue" and rest: "tryPools env c (i + 1) pools w0 = (None, w1)"
    by (auto split: Step.splits)
  from tryPool_console_Continue step r obtain l where
    l: "console w0 = console w @ [l]" "failureLine env c (i + 1) pool (trace w) = Some l"
    by blast
  from Cons.IH [OF rest] obtain ls where
    ls: "console w1 = console w0 @ ls"
        "map Some ls =
           map (\<lambda>j. failureLine env c (i + 1 + j + 1) (pools ! j)
                      (trace (snd (tryPools env c (i + 1) (take j pools) w0))))
             [0 ..< length pools]"
    by blast
  have later: "tryPools env c i (pool # take j pools) w = tryPools env c (i + 1) (take j pools) w0"
    for j
    using step r by simp
  have "map Some (l # ls) =
          map (\<lambda>j. failureLine env c (i + j + 1) ((pool # pools) ! j)
                     (trace (snd (tryPools env c i (take j (pool # pools)) w))))
            [0 ..< length (pool # pools)]"
    using l(2) ls(2) by (simp add: map_upt_Suc later del: upt_Suc tryPools.simps(2))
  with l(1) ls(1) show ?case
    by (intro exI [of _ "l # ls"]) simp
qed

text \<open>
  C5, as amended. When the loop is reached and no candidate succeeds, \<open>performTokenSwap\<close>
  fails with the one error \<open>All available pools failed for this swap\<close>, which carries no
  reason of any candidate. The reasons are written to the console only: the request adds one
  line for each candidate, in candidate order, and the line of candidate \<open>j + 1\<close> is the
  failure line of that candidate at the events issued when it was tried, that is, its number
  with the status of its simulation or with the message of the error that made it fail.
\<close>

theorem all_failed_reasons_only_logged:
  assumes "prepareSwap env fromTok toTok amt sl key w = (Inr (c, pools), w1)"
      and "fst (tryPools env c 0 pools w1) = None"
  shows "fst (performTokenSwap env fromTok toTok amt sl key w) =
           Inl (Error ''All available pools failed for this swap'') \<and>
         (\<exists>ls. console (snd (performTokenSwap env fromTok toTok amt sl key w)) = console w @ ls \<and>
               map Some ls =
                 map (\<lambda>j. failureLine env c (j + 1) (pools ! j)
                            (trace (snd (tryPools env c 0 (take j pools) w1))))
                   [0 ..< length pools] \<and>
               map poolNumber ls = map (\<lambda>j. Some (j + 1)) [0 ..< length pools])"
proof -
  obtain w2 where loop: "tryPools env c 0 pools w1 = (None, w2)"
    using assms(2) by (cases "tryPools env c 0 pools w1") simp
  from tryPools_console_None [OF loop] prepareSwap_Inr(12) [OF assms(1)] obtain ls where
    ls: "console w2 = console w @ ls"
        "map Some ls =
           map (\<lambda>j. failureLine env c (j + 1) (pools ! j)
                      (trace (snd (tryPools env c 0 (take j pools) w1))))
             [0 ..< length pools]"
    by auto
  from ls(2) have len: "length ls = length pools"
    by (auto dest: arg_cong [where f = length])
  have "poolNumber (ls ! j) = Some (j + 1)" if "j < length pools" for j
  proof -
    from ls(2) have "map Some ls ! j =
        map (\<lambda>j. failureLine env c (j + 1) (pools ! j)
                   (trace (snd (tryPools env c 0 (take j pools) w1))))
          [0 ..< length pools] ! j"
      by simp
    with that len have "failureLine env c (j + 1) (pools ! j)
                          (trace (snd (tryPools env c 0 (take j pools) w1))) = Some (ls ! j)"
      by simp
    then show ?thesis
      by (rule failureLine_number)
  qed
  with len have "map poolNumber ls = map (\<lambda>j. Some (j + 1)) [0 ..< length pools]"
    by (intro nth_equalityI) simp_all
  with ls assms(1) loop show ?thesis
    by (simp add: performTokenSwap_def)
qed

text \<open>
  Two candidates whose simulations both report a non-success status, and two candidates whose
  executions both throw: the lines on the console are the two statuses, and the two messages.
\<close>

theorem all_failed_reasons_only_logged_witness:
  "fst (performTokenSwap ledgerSimulationsFail ''ETH'' ''USDT'' 1 (1 / 2) ''key'' World0) =
     Inl (Error ''All available pools failed for this swap'') \<and>
   console (snd (performTokenSwap ledgerSimulationsFail ''ETH'' ''USDT'' 1 (1 / 2) ''key'' World0)) =
     [PoolSimulationFailed 1 (NotOk ''Too large liquidity gap''),
      PoolSimulationFailed 2 (NotOk ''Too large liquidity gap'')] \<and>
   fst (performTokenSwap ledgerExecutionsFail ''ETH'' ''USDT'' 1 (1 / 2) ''key'' World0) =
     Inl (Error ''All available pools failed for this swap'') \<and>
   console (snd (performTokenSwap ledgerExecutionsFail ''ETH'' ''USDT'' 1 (1 / 2) ''key'' World0)) =
     [PoolFailed 1 ''Transaction simulation failed'', PoolFailed 2 ''Transaction simulation failed''] \<and>
   (\<exists>ls. console (snd (performTokenSwap ledgerSimulationsFail ''ETH'' ''USDT'' 1 (1 / 2) ''key'' World0)) =
            console World0 @ ls \<and>
         map Some ls =
           map (\<lambda>j. failureLine ledgerSimulationsFail sampleLocals (j + 1) ([poolA, poolB] ! j)
                      (trace (snd (tryPools ledgerSimulationsFail sampleLocals 0 (take j [poolA, poolB])
                         \<lparr>trace = [MarketBuild, GetAllPools, GetAccount ''ata-So11'',
                                   GetAccount ''ata-CEBP''],
                          console = []\<rparr>))))
             [0 ..< length [poolA, poolB]] \<and>
         map poolNumber ls = map (\<lambda>j. Some (j + 1)) [0 ..< length [poolA, poolB]]) \<and>
   (\<exists>ls. console (snd (performTokenSwap ledgerExecutionsFail ''ETH'' ''USDT'' 1 (1 / 2) ''key'' World0)) =
            console World0 @ ls \<and>
         map Some ls =
           map (\<lambda>j. failureLine ledgerExecutionsFail sampleLocals (j + 1) ([poolA, poolB] ! j)
                      (trace (snd (tryPools ledgerExecutionsFail sampleLocals 0 (take j [poolA, poolB])
                         \<lparr>trace = [MarketBuild, GetAllPools, GetAccount ''ata-So11'',
                                   GetAccount ''ata-CEBP''],
                          console = []\<rparr>))))
             [0 ..< length [poolA, poolB]] \<and>
         map poolNumber ls = map (\<lambda>j. Some (j + 1)) [0 ..< length [poolA, poolB]])"
proof -
  have simulations: "fst (tryPools ledgerSimulationsFail sampleLocals 0 [poolA, poolB]
                 \<lparr>trace = [MarketBuild, GetAllPools, GetAccount ''ata-So11'', GetAccount ''ata-CEBP''],
                  console = []\<rparr>) = None"
    by (simp add: ledgerSimulationsFail_def sample_defs server_defs sampleLocals_def Let_def)
  have executions: "fst (tryPools ledgerExecutionsFail sampleLocals 0 [poolA, poolB]
                 \<lparr>trace = [MarketBuild, GetAllPools, GetAccount ''ata-So11'', GetAccount ''ata-CEBP''],
                  console = []\<rparr>) = None"
    by (simp add: ledgerExecutionsFail_def sample_defs server_defs sampleLocals_def Let_def)
  have "console (snd (performTokenSwap ledgerSimulationsFail ''ETH'' ''USDT'' 1 (1 / 2) ''key'' World0)) =
     [PoolSimulationFailed 1 (NotOk ''Too large liquidity gap''),
      PoolSimulationFailed 2 (NotOk ''Too large liquidity gap'')]"
    by (simp add: ledgerSimulationsFail_def sample_defs server_defs Let_def)
  moreover
  have "console (snd (performTokenSwap ledgerExecutionsFail ''ETH'' ''USDT'' 1 (1 / 2) ''key'' World0)) =
     [PoolFailed 1 ''Transaction simulation failed'', PoolFailed 2 ''Transaction simulation failed'']"
    by (simp add: ledgerExecutionsFail_def sample_defs server_defs Let_def)
  moreover note all_failed_reasons_only_logged [OF prep_sim simulations, THEN conjunct1]
    all_failed_reasons_only_logged [OF prep_exec executions, THEN conjunct1]
    all_failed_reasons_only_logged [OF prep_sim simulations, THEN conjunct2]
    all_failed_reasons_only_logged [OF prep_exec executions, THEN conjunct2]
  ultimately show ?thesis
    by (intro conjI)
qed

text \<open>
  C5 as stated fails: a request whose two simulations fail and a request whose two executions
  fail return the same failure, with status 500 and the same message, although their
  per-candidate reasons differ.
\<close>

theorem all_failed_reasons_counterexample:
  "fst (performTokenSwap ledgerSimulationsFail ''ETH'' ''USDT'' 1 (1 / 2) ''key'' World0) =
     fst (performTokenSwap ledgerExecutionsFail ''ETH'' ''USDT'' 1 (1 / 2) ''key'' World0) \<and>
   fst (apiSwap ledgerSimulationsFail ''ETH'' ''USDT'' 1 None ''key'' World0) =
     StatusError 500 ''All available pools failed for this swap'' \<and>
   fst (apiSwap ledgerExecutionsFail ''ETH'' ''USDT'' 1 None ''key'' World0) =
     StatusError 500 ''All available pools failed for this swap'' \<and>
   console (snd (performTokenSwap ledgerSimulationsFail ''ETH'' ''USDT'' 1 (1 / 2) ''key'' World0)) =
     [PoolSimulationFailed 1 (NotOk ''Too large liquidity gap''),
      PoolSimulationFailed 2 (NotOk ''Too large liquidity gap'')] \<and>
   console (snd (performTokenSwap ledgerExecutionsFail ''ETH'' ''USDT'' 1 (1 / 2) ''key'' World0)) =
     [PoolFailed 1 ''Transaction simulation failed'', PoolFailed 2 ''Transaction simulation failed'']"
  by (simp add: ledgerSimulationsFail_def ledgerExecutionsFail_def sample_defs server_defs Let_def)

section \<open>Pools of other pairs\<close>







section \<open>Unit of the amount\<close>

lemma tradedAmounts_append: "tradedAmounts (xs @ ys) = tradedAmounts xs @ tradedAmounts ys"
  by (induction xs rule: tradedAmounts.induct) simp_all

lemma tradedAmounts_prior:
  "list_all (\<lambda>e. \<not> isSimulation e \<and> \<not> isExecution e) es \<Longrightarrow> tradedAmounts es = []"
  by (induction es rule: tradedAmounts.induct) (simp_all add: isSimulation_def isExecution_def)

lemma issuedFor_amount:
  assumes "issuedFor env c pool e"
  shows "tradedAmounts [e] = [swapAmount c]"
proof (cases e)
  case (SwapSimulation a)
  with assms show ?thesis
    by (auto simp: issuedFor_def simulationArgs_def split: sum.splits)
next
  case (MarketSwap a)
  with assms obtain d where
    "a = executionArgs env c d (canonicalPair env pool) (estimatedPriceAfterSwap a)"
    by (auto simp: issuedFor_def split: sum.splits)
  then have "amount a =
      amount (executionArgs env c d (canonicalPair env pool) (estimatedPriceAfterSwap a))"
    by (rule arg_cong)
  with MarketSwap show ?thesis
    by (simp add: executionArgs_def)
qed (use assms in \<open>auto simp: issuedFor_def split: sum.splits\<close>)

lemma tradedAmounts_issued:
  "list_all (\<lambda>e. list_ex (\<lambda>pool. issuedFor env c pool e) pools) es \<Longrightarrow>
     list_all (\<lambda>x. x = swapAmount c) (tradedAmounts es)"
proof (induction es)
  case Nil
  then show ?case by simp
next
  case (Cons e es)
  then obtain pool where "issuedFor env c pool e"
    by (auto simp: list_ex_iff)
  from issuedFor_amount [OF this] Cons
  show ?case
    using tradedAmounts_append [of "[e]" es] by simp
qed

text \<open>
  Whatever the amount, the quantity given to every simulation and every execution of
  \<open>performTokenSwap\<close> is the integer part that \<open>new BN(amount)\<close> keeps, multiplied by ten
  to the power of the from-token's decimals.
\<close>

lemma performTokenSwap_amount_truncated:
  assumes "prepareSwap env fromTok toTok amt sl key w = (Inr (c, pools), w1)"
  shows "\<exists>es. getTokenInfo fromTok = Inr (fromTokenInfo c) \<and>
           trace (snd (performTokenSwap env fromTok toTok amt sl key w)) = trace w @ es \<and>
           list_all (\<lambda>x. x = (if 0 \<le> amt then \<lfloor>amt\<rfloor> else - \<lfloor>- amt\<rfloor>) * 10 ^ decimals (fromTokenInfo c))
             (tradedAmounts es)"
proof -
  from prepareSwap_Inr(13) [OF assms] obtain prior where
    prior: "trace w1 = trace w @ prior" "tradedAmounts prior = []"
    by (auto dest: tradedAmounts_prior)
  from tryPools_trace [of env c 0 pools w1] obtain es where
    es: "trace (snd (tryPools env c 0 pools w1)) = trace w1 @ es"
        "list_all (\<lambda>e. list_ex (\<lambda>pool. issuedFor env c pool e) pools) es"
    by blast
  from prepareSwap_Inr(3) [OF assms]
  have amt: "swapAmount c = (if 0 \<le> amt then \<lfloor>amt\<rfloor> else - \<lfloor>- amt\<rfloor>) * 10 ^ decimals (fromTokenInfo c)"
    by (auto simp: BN_ofNumber_def split: if_splits)
  from tradedAmounts_issued [OF es(2)] prior(2) amt
  have "list_all (\<lambda>x. x = (if 0 \<le> amt then \<lfloor>amt\<rfloor> else - \<lfloor>- amt\<rfloor>) * 10 ^ decimals (fromTokenInfo c))
          (tradedAmounts (prior @ es))"
    by (simp add: tradedAmounts_append)
  with prepareSwap_Inr(1) [OF assms] performTokenSwap_loop [OF assms] prior(1) es(1)
  show ?thesis
    by (intro exI [of _ "prior @ es"]) simp
qed

text \<open>
  C9, as amended. The amount of a request is in whole tokens: for a request with the
  whole-number amount \<open>n\<close> that reaches the candidates, every simulation and every execution of
  \<open>performTokenSwap\<close> is given \<open>n\<close> multiplied by ten to the power of the from-token's
  decimals.
\<close>

theorem performTokenSwap_amount_scaled:
  assumes "prepareSwap env fromTok toTok (of_int n) sl key w = (Inr (c, pools), w1)"
  shows "\<exists>es. getTokenInfo fromTok = Inr (fromTokenInfo c) \<and>
           trace (snd (performTokenSwap env fromTok toTok (of_int n) sl key w)) = trace w @ es \<and>
           list_all (\<lambda>x. x = n * 10 ^ decimals (fromTokenInfo c)) (tradedAmounts es)"
proof -
  have "(if 0 \<le> rat_of_int n then \<lfloor>rat_of_int n\<rfloor> else - \<lfloor>- rat_of_int n\<rfloor>) = n"
    by (simp flip: of_int_minus)
  with performTokenSwap_amount_truncated [OF assms] show ?thesis
    by simp
qed

text \<open>One ETH, nine decimals: the three calls of the scenario are given 1000000000.\<close>

theorem performTokenSwap_amount_scaled_witness:
  "tradedAmounts (trace (snd (performTokenSwap ledgerTwoPools ''ETH'' ''USDT'' 1 (1 / 2) ''key'' World0))) =
     [1000000000, 1000000000, 1000000000] \<and>
   (\<exists>es. getTokenInfo ''ETH'' = Inr (fromTokenInfo sampleLocals) \<and>
      trace (snd (performTokenSwap ledgerTwoPools ''ETH'' ''USDT'' 1 (1 / 2) ''key'' World0)) =
        trace World0 @ es \<and>
      list_all (\<lambda>x. x = 1 * 10 ^ decimals (fromTokenInfo sampleLocals)) (tradedAmounts es))"
proof -
  have "tradedAmounts (trace (snd (performTokenSwap ledgerTwoPools ''ETH'' ''USDT'' 1 (1 / 2) ''key'' World0))) =
     [1000000000, 1000000000, 1000000000]"
    by (simp add: ledgerTwoPools_def sample_defs server_defs Let_def)
  moreover have "prepareSwap ledgerTwoPools ''ETH'' ''USDT'' (of_int 1) (1 / 2) ''key'' World0 =
     (Inr (sampleLocals, [poolA, poolB]),
      \<lparr>trace = [MarketBuild, GetAllPools, GetAccount ''ata-So11'', GetAccount ''ata-CEBP''],
       console = []\<rparr>)"
    using prep_two by simp
  from performTokenSwap_amount_scaled [OF this]
  have "\<exists>es. getTokenInfo ''ETH'' = Inr (fromTokenInfo sampleLocals) \<and>
      trace (snd (performTokenSwap ledgerTwoPools ''ETH'' ''USDT'' 1 (1 / 2) ''key'' World0)) =
        trace World0 @ es \<and>
      list_all (\<lambda>x. x = 1 * 10 ^ decimals (fromTokenInfo sampleLocals)) (tradedAmounts es)"
    by simp
  ultimately show ?thesis by blast
qed

text \<open>
  C9 as stated fails: for the request amount 1 the quantity passed to the simulations and to
  the execution is 1000000000, not 1.
\<close>

theorem performTokenSwap_amount_counterexample:
  "fromAmount sampleLocals = 1 \<and>
   prepareSwap ledgerTwoPools ''ETH'' ''USDT'' 1 (1 / 2) ''key'' World0 =
     (Inr (sampleLocals, [poolA, poolB]),
      \<lparr>trace = [MarketBuild, GetAllPools, GetAccount ''ata-So11'', GetAccount ''ata-CEBP''],
       console = []\<rparr>) \<and>
   tradedAmounts (trace (snd (performTokenSwap ledgerTwoPools ''ETH'' ''USDT'' 1 (1 / 2) ''key'' World0))) =
     [1000000000, 1000000000, 1000000000]"
  by (simp add: ledgerTwoPools_def sample_defs server_defs sampleLocals_def Let_def)

section \<open>Quotes\<close>

text \<open>
  C10. A quote request for two tokens with different mints that reaches discovery, with the
  matching pools sorted by fee being \<open>pool # rest\<close> and a slippage that converts: \<open>pool\<close> has
  the lowest fee, and after the market build and the enumeration the route issues exactly
  one call, a simulation. It is addressed to the canonical pair of \<open>pool\<close>, its flag is true
  exactly when the first token of that pair is the mint of \<open>fromToken\<close>, and it is given the
  scaled amount and the converted slippage. When the ledger answers it with a status other
  than \<open>Ok\<close> the quote fails with status 400, and when the simulation throws the quote fails
  with status 500; in neither case is a pool of \<open>rest\<close> tried.
\<close>

theorem apiQuote_single_pool:
  assumes "fromTok \<noteq> []" and "toTok \<noteq> []" and "amt \<noteq> 0"
      and "getTokenInfo fromTok = Inr fromInfo"
      and "getTokenInfo toTok = Inr toInfo"
      and "mint fromInfo \<noteq> mint toInfo"
      and "BN_ofNumber amt = Inr a"
      and "marketBuild env (trace w) = None"
      and "getAllPools env (trace w @ [MarketBuild]) = Inr allPools"
      and "sort_key fee
             (filter (\<lambda>p. (tokenX p = mint fromInfo \<and> tokenY p = mint toInfo) \<or>
                          (tokenX p = mint toInfo \<and> tokenY p = mint fromInfo)) allPools) =
             pool # rest"
      and "toDecimal env (case slippageField of None \<Rightarrow> 1 / 2 | Some s \<Rightarrow> s) 2 = Inr d"
  shows "list_all (\<lambda>p. fee pool \<le> fee p) rest \<and>
         (\<exists>args.
            trace (snd (apiQuote env fromTok toTok amt slippageField w)) =
              trace w @ [MarketBuild, GetAllPools, SwapSimulation args] \<and>
            poolAddress args = getAddress env (canonicalPair env pool) \<and>
            xToY args = (tokenX (canonicalPair env pool) = mint fromInfo) \<and>
            byAmountIn args \<and>
            amount args = a * 10 ^ decimals fromInfo \<and>
            slippage args = d \<and>
            maxCrosses args = 40 \<and>
            (\<forall>simulation.
               swapSimulation env (trace w @ [MarketBuild, GetAllPools]) args = Inr simulation \<longrightarrow>
               status simulation \<noteq> Ok \<longrightarrow>
               fst (apiQuote env fromTok toTok amt slippageField w) =
                 StatusError 400 (''Simulation failed: '' @ statusText (status simulation))) \<and>
            (\<forall>msg.
               swapSimulation env (trace w @ [MarketBuild, GetAllPools]) args = Inl msg \<longrightarrow>
               fst (apiQuote env fromTok toTok amt slippageField w) = StatusError 500 msg))"
proof -
  let ?matching = "\<lambda>p. (tokenX p = mint fromInfo \<and> tokenY p = mint toInfo) \<or>
                       (tokenX p = mint toInfo \<and> tokenY p = mint fromInfo)"
  let ?args = "simulationArgs env (mint fromInfo) (a * 10 ^ decimals fromInfo) d
                 (canonicalPair env pool)"
  have "sorted (map fee (sort_key fee (filter ?matching allPools)))"
    by simp
  with assms(10) have lowest: "list_all (\<lambda>p. fee pool \<le> fee p) rest"
    by (simp add: list_all_iff)
  have "pool \<in> set (sort_key fee (filter ?matching allPools))"
    using assms(10) by simp
  with assms(6) have distinct: "tokenX pool \<noteq> tokenY pool"
    by auto
  have discovered: "findBestPoolForPair env (mint fromInfo) (mint toInfo) (emit MarketBuild w) =
                      (Inr (pool # rest), emit GetAllPools (emit MarketBuild w))"
    using assms(9,10) by (simp add: findBestPoolForPair_def relevant_def [abs_def])
  have market: "initializeMarket env w = (Inr (), emit MarketBuild w)"
    using assms(8) by (simp add: initializeMarket_def)
  have "trace (snd (apiQuote env fromTok toTok amt slippageField w)) =
          trace w @ [MarketBuild, GetAllPools, SwapSimulation ?args]"
    using assms(1-5,7,11) distinct
    by (simp add: apiQuote_def discovered market pairOfPool_canonical Let_def
             split: sum.splits Error.splits option.splits)
  moreover have "fst (apiQuote env fromTok toTok amt slippageField w) =
                   StatusError 400 (''Simulation failed: '' @ statusText (status simulation))"
    if "swapSimulation env (trace w @ [MarketBuild, GetAllPools]) ?args = Inr simulation"
      and "status simulation \<noteq> Ok" for simulation
    using assms(1-5,7,11) distinct that
    by (simp add: apiQuote_def discovered market pairOfPool_canonical Let_def)
  moreover have "fst (apiQuote env fromTok toTok amt slippageField w) = StatusError 500 msg"
    if "swapSimulation env (trace w @ [MarketBuild, GetAllPools]) ?args = Inl msg" for msg
    using assms(1-5,7,11) distinct that
    by (simp add: apiQuote_def discovered market pairOfPool_canonical Let_def)
  moreover have "poolAddress ?args = getAddress env (canonicalPair env pool)"
    and "xToY ?args = (tokenX (canonicalPair env pool) = mint fromInfo)"
    and "byAmountIn ?args" and "amount ?args = a * 10 ^ decimals fromInfo"
    and "slippage ?args = d" and "maxCrosses ?args = 40"
    by (simp_all add: simulationArgs_def TICK_CROSSES_PER_IX_NATIVE_TOKEN_def)
  ultimately show ?thesis
    using lowest by (intro conjI exI [of _ ?args]) blast+
qed

text \<open>
  A quote for one ETH in the scenario, whose pools are enumerated at fees 500000000,
  100000000 (another pair) and 100000000: the one simulation is addressed to the pool at fee
  100000000, the ledger answers it with a status other than \<open>Ok\<close>, and the quote fails with
  status 400; the pool at fee 500000000, whose simulation would succeed, is not tried.
\<close>

theorem apiQuote_single_pool_witness:
  "fst (apiQuote ledgerTwoPools ''eth'' ''usdt'' 1 None World0) =
     StatusError 400 ''Simulation failed: Too large liquidity gap'' \<and>
   snd (apiQuote ledgerTwoPools ''eth'' ''usdt'' 1 None World0) =
     \<lparr>trace = [MarketBuild, GetAllPools,
               SwapSimulation
                 \<lparr>xToY = False, byAmountIn = True, amount = 1000000000, slippage = 5000000000,
                  poolAddress = ''pool-A'', maxCrosses = 40\<rparr>],
      console = []\<rparr> \<and>
   list_all (\<lambda>p. fee poolA \<le> fee p) [poolB] \<and>
   simulationSecondOnly
     \<lparr>xToY = False, byAmountIn = True, amount = 1000000000, slippage = 5000000000,
      poolAddress = ''pool-B'', maxCrosses = 40\<rparr> =
     Inr \<lparr>status = Ok, priceAfterSwap = 42, accumulatedAmountOut = Some 2500000,
          priceImpact = None\<rparr>"
proof -
  let ?fromInfo = "\<lparr>mint = NATIVE_MINT, decimals = 9, tokenProgram = TOKEN_PROGRAM_ID\<rparr>"
  let ?toInfo = "\<lparr>mint = USDT_MINT, decimals = 6, tokenProgram = TOKEN_2022_PROGRAM_ID\<rparr>"
  have pre: "''eth'' \<noteq> []" "''usdt'' \<noteq> []" "(1 :: rat) \<noteq> 0"
    "getTokenInfo ''eth'' = Inr ?fromInfo"
    "getTokenInfo ''usdt'' = Inr ?toInfo"
    "mint ?fromInfo \<noteq> mint ?toInfo"
    "BN_ofNumber 1 = Inr 1"
    "marketBuild ledgerTwoPools (trace World0) = None"
    "getAllPools ledgerTwoPools (trace World0 @ [MarketBuild]) = Inr [poolB, poolForeign, poolA]"
    "sort_key fee
       (filter (\<lambda>p. (tokenX p = mint ?fromInfo \<and> tokenY p = mint ?toInfo) \<or>
                    (tokenX p = mint ?toInfo \<and> tokenY p = mint ?fromInfo))
          [poolB, poolForeign, poolA]) = poolA # [poolB]"
    "toDecimal ledgerTwoPools (case None of None \<Rightarrow> 1 / 2 | Some s \<Rightarrow> s) 2 = Inr 5000000000"
    by (simp_all add: ledgerTwoPools_def sample_defs getTokenInfo_def TOKEN_REGISTRY_def
          toUpperCase_def toUpperCaseChar_def BN_ofNumber_def)
  from apiQuote_single_pool [OF pre] obtain args where
    lowest: "list_all (\<lambda>p. fee poolA \<le> fee p) [poolB]"
    and address: "poolAddress args = getAddress ledgerTwoPools (canonicalPair ledgerTwoPools poolA)"
    and failing: "\<And>simulation.
      swapSimulation ledgerTwoPools (trace World0 @ [MarketBuild, GetAllPools]) args = Inr simulation \<Longrightarrow>
      status simulation \<noteq> Ok \<Longrightarrow>
      fst (apiQuote ledgerTwoPools ''eth'' ''usdt'' 1 None World0) =
        StatusError 400 (''Simulation failed: '' @ statusText (status simulation))"
    by blast
  from address have "poolAddress args = ''pool-A''"
    by (simp add: canonicalPair_def canonicalOrder_def ledgerTwoPools_def sample_defs)
  then have "swapSimulation ledgerTwoPools (trace World0 @ [MarketBuild, GetAllPools]) args =
      Inr \<lparr>status = NotOk ''Too large liquidity gap'', priceAfterSwap = 0,
           accumulatedAmountOut = None, priceImpact = None\<rparr>"
    by (simp add: ledgerTwoPools_def sample_defs)
  from failing [OF this]
  have "fst (apiQuote ledgerTwoPools ''eth'' ''usdt'' 1 None World0) =
          StatusError 400 ''Simulation failed: Too large liquidity gap''"
    by (simp add: statusText_def)
  moreover
  have "snd (apiQuote ledgerTwoPools ''eth'' ''usdt'' 1 None World0) =
     \<lparr>trace = [MarketBuild, GetAllPools,
               SwapSimulation
                 \<lparr>xToY = False, byAmountIn = True, amount = 1000000000, slippage = 5000000000,
                  poolAddress = ''pool-A'', maxCrosses = 40\<rparr>],
      console = []\<rparr>"
    by (simp add: apiQuote_def ledgerTwoPools_def sample_defs server_defs statusText_def Let_def)
  moreover
  have "simulationSecondOnly
     \<lparr>xToY = False, byAmountIn = True, amount = 1000000000, slippage = 5000000000,
      poolAddress = ''pool-B'', maxCrosses = 40\<rparr> =
     Inr \<lparr>status = Ok, priceAfterSwap = 42, accumulatedAmountOut = Some 2500000,
          priceImpact = None\<rparr>"
    by (simp add: simulationSecondOnly_def simulationOk_def)
  ultimately show ?thesis
    using lowest by (intro conjI)
qed

text \<open>
  When the \<open>Pair\<close> constructor or \<open>toDecimal\<close> throws, the route answers with status 500
  and nothing is simulated. The route does not validate the slippage: on a ledger whose
  \<open>toDecimal\<close> throws from \<open>2^26\<close> on, a quote with slippage \<open>2^26\<close> is such a request.
\<close>

lemma apiQuote_no_simulation:
  assumes "fromTok \<noteq> []" and "toTok \<noteq> []" and "amt \<noteq> 0"
      and "getTokenInfo fromTok = Inr fromInfo"
      and "getTokenInfo toTok = Inr toInfo"
      and "BN_ofNumber amt = Inr a"
      and "marketBuild env (trace w) = None"
      and "getAllPools env (trace w @ [MarketBuild]) = Inr allPools"
      and "sort_key fee
             (filter (\<lambda>p. (tokenX p = mint fromInfo \<and> tokenY p = mint toInfo) \<or>
                          (tokenX p = mint toInfo \<and> tokenY p = mint fromInfo)) allPools) =
             pool # rest"
      and "tokenX pool = tokenY pool \<or>
           (\<exists>msg. toDecimal env (case slippageField of None \<Rightarrow> 1 / 2 | Some s \<Rightarrow> s) 2 = Inl msg)"
  shows "\<exists>msg. apiQuote env fromTok toTok amt slippageField w =
           (StatusError 500 msg, w\<lparr>trace := trace w @ [MarketBuild, GetAllPools]\<rparr>)"
proof -
  have discovered: "findBestPoolForPair env (mint fromInfo) (mint toInfo) (emit MarketBuild w) =
                      (Inr (pool # rest), emit GetAllPools (emit MarketBuild w))"
    using assms(8,9) by (simp add: findBestPoolForPair_def relevant_def [abs_def])
  have market: "initializeMarket env w = (Inr (), emit MarketBuild w)"
    using assms(7) by (simp add: initializeMarket_def)
  have world: "emit GetAllPools (emit MarketBuild w) = w\<lparr>trace := trace w @ [MarketBuild, GetAllPools]\<rparr>"
    by (simp add: emit_def)
  from assms(1-6,10)
  have "\<exists>msg. apiQuote env fromTok toTok amt slippageField w =
           (StatusError 500 msg, emit GetAllPools (emit MarketBuild w))"
    by (auto simp: apiQuote_def discovered market pairOfPool_canonical Let_def)
  then show ?thesis
    by (simp add: world)
qed

lemma apiQuote_slippage_not_validated:
  "apiQuote ledgerTwoPools ''eth'' ''usdt'' 1 (Some 67108864) World0 =
     (StatusError 500 ''Assertion failed'', \<lparr>trace = [MarketBuild, GetAllPools], console = []\<rparr>)"
  by (simp add: apiQuote_def ledgerTwoPools_def sample_defs server_defs Let_def)


end
